theory Spec2Isabelle
  imports Main "HOL-Library.Word" "HOL-Library.Signed_Division"
begin

section \<open>The Graphite exporter of go-metrics-graphite (graphite.go)\<close>

text \<open>
  A shallow embedding of \<^verbatim>\<open>graphite.go\<close>: the name/tag split, the formatting of the
  metric kinds into Graphite's plaintext line protocol and one flush cycle
  (\<^verbatim>\<open>graphite\<close>, called by \<^verbatim>\<open>Once\<close>). The endless loop of \<^verbatim>\<open>WithConfig\<close>, which
  runs a cycle at every tick, is not part of the model. Go strings are byte sequences
  and are modelled as \<^typ>\<open>string\<close>; \<^verbatim>\<open>int64\<close> is a 64-bit word read in two's
  complement; \<^verbatim>\<open>float64\<close> is IEEE 754 binary64 with round-to-nearest-even, in exact
  integer arithmetic. What the program does to the world (clock, network, log) is
  explicit state; a run-time panic is a result of its own.
\<close>

subsection \<open>The functions of Go's package strings that the exporter calls\<close>

text \<open>
  \<^verbatim>\<open>strings.Index(s, substr)\<close>: the index of the first instance of \<^verbatim>\<open>substr\<close> in
  \<^verbatim>\<open>s\<close>; Go's \<^verbatim>\<open>-1\<close> is \<open>None\<close>.
\<close>

fun Index :: "string \<Rightarrow> string \<Rightarrow> nat option" where
  "Index [] substr = (if substr = [] then Some 0 else None)"
| "Index (c # cs) substr =
     (if take (length substr) (c # cs) = substr then Some 0
      else map_option Suc (Index cs substr))"

definition Contains :: "string \<Rightarrow> string \<Rightarrow> bool" where
  "Contains s substr = (Index s substr \<noteq> None)"

text \<open>
  \<^verbatim>\<open>strings.SplitN(s, sep, n)\<close> for a non-empty separator (the exporter passes
  \<^verbatim>\<open>";"\<close>): \<^verbatim>\<open>genSplit\<close>'s loop cuts at most \<open>n - 1\<close> times, at the first
  instances of the separator, and the rest of the string is the last piece. A negative
  \<open>n\<close> means no limit; \<open>n\<close> is capped at \<open>len(s) + 1\<close>.
\<close>

fun genSplit :: "nat \<Rightarrow> string \<Rightarrow> string \<Rightarrow> string list" where
  "genSplit 0 s sep = [s]"
| "genSplit (Suc k) s sep =
     (case Index s sep of
        None \<Rightarrow> [s]
      | Some m \<Rightarrow> take m s # genSplit k (drop (m + length sep) s) sep)"

definition SplitN :: "string \<Rightarrow> string \<Rightarrow> int \<Rightarrow> string list" where
  "SplitN s sep n =
     (if n = 0 then []
      else let n' = (if n < 0 \<or> int (length s) + 1 < n then length s + 1 else nat n)
           in genSplit (n' - 1) s sep)"

text \<open>
  \<^verbatim>\<open>strings.Replace(s, old, new, n)\<close> for a non-empty \<^verbatim>\<open>old\<close> (the exporter passes
  \<^verbatim>\<open>"."\<close>): the first \<open>n\<close> non-overlapping instances of \<^verbatim>\<open>old\<close> are replaced,
  all of them when \<open>n < 0\<close>.
\<close>

fun Replace_loop :: "nat \<Rightarrow> string \<Rightarrow> string \<Rightarrow> string \<Rightarrow> string" where
  "Replace_loop 0 s old new = s"
| "Replace_loop (Suc k) s old new =
     (case Index s old of
        None \<Rightarrow> s
      | Some j \<Rightarrow> take j s @ new @ Replace_loop k (drop (j + length old) s) old new)"

definition Replace :: "string \<Rightarrow> string \<Rightarrow> string \<Rightarrow> int \<Rightarrow> string" where
  "Replace s old new n =
     (if old = new \<or> n = 0 then s
      else Replace_loop (if n < 0 then length s + 1 else nat n) s old new)"

subsection \<open>splitNameAndTags\<close>

text \<open>
  \<^verbatim>\<open>
  func splitNameAndTags(name string) (string, string) {
      if strings.Contains(name, ";") {
          splitted := strings.SplitN(name, ";", 2)
          if len(splitted) == 2 {
              return splitted[0], ";" + splitted[1]
          } else {
              return name, ""
          }
      } else {
          return name, ""
      }
  }
  \<close>
\<close>

definition splitNameAndTags :: "string \<Rightarrow> string \<times> string" where
  "splitNameAndTags name =
     (if Contains name '';'' then
        (let splitted = SplitN name '';'' 2 in
         if length splitted = 2 then (splitted ! 0, '';'' @ splitted ! 1)
         else (name, ''''))
      else (name, ''''))"

subsection \<open>int64 and float64\<close>

text \<open>
  \<^verbatim>\<open>int64\<close> values are 64-bit words, read in two's complement by \<open>sint\<close>. Go's
  integer division truncates towards zero, and \<^verbatim>\<open>MinInt64 / -1\<close> wraps around; a zero
  divisor is a run-time panic, which the caller of \<open>int64_quo\<close> checks first.
\<close>

type_synonym int64 = "64 word"

definition int64_quo :: "int64 \<Rightarrow> int64 \<Rightarrow> int64" where
  "int64_quo a b = word_of_int (sint a sdiv sint b)"

text \<open>
  A \<^verbatim>\<open>float64\<close> is an IEEE 754 binary64 value. \<open>Finite s m e\<close> is
  \<open>(-1)^s * m * 2^e\<close> in its canonical form: \<open>m < 2^53\<close>, \<open>-1074 \<le> e \<le> 971\<close>, and
  \<open>2^52 \<le> m\<close> unless \<open>e = -1074\<close> (zero and the subnormal numbers). Zero keeps its sign.
\<close>

datatype float64 = Finite bool int int | Infinity bool | NaN

text \<open>The number of binary digits of a positive integer.\<close>

fun bits :: "int \<Rightarrow> int" where
  "bits n = (if n \<le> 0 then 0 else bits (n div 2) + 1)"

declare bits.simps [simp del]

text \<open>\<open>n / d\<close> rounded to the nearest integer, a tie to the even one (\<open>0 \<le> n\<close>, \<open>0 < d\<close>).\<close>

definition round_half_even :: "int \<Rightarrow> int \<Rightarrow> int" where
  "round_half_even n d =
     (let q = n div d; r = n mod d
      in if 2 * r < d then q
         else if d < 2 * r then q + 1
         else if even q then q else q + 1)"

text \<open>\<open>\<lfloor>log\<^sub>2 (n / d)\<rfloor>\<close> for positive \<open>n\<close> and \<open>d\<close>.\<close>

definition ilog2 :: "int \<Rightarrow> int \<Rightarrow> int" where
  "ilog2 n d =
     (let e0 = bits n - bits d
      in if (if 0 \<le> e0 then d * 2 ^ nat e0 \<le> n else d \<le> n * 2 ^ nat (- e0))
         then e0 else e0 - 1)"

text \<open>
  The rational \<open>n / d\<close> (\<open>0 \<le> n\<close>, \<open>0 < d\<close>) with sign \<open>s\<close>, rounded to the nearest
  \<^verbatim>\<open>float64\<close>, a tie to the even mantissa; what reaches \<open>2^1024\<close> after rounding is an
  infinity. Every arithmetic operation below is the exact result rounded this way.
\<close>

definition round64 :: "bool \<Rightarrow> int \<Rightarrow> int \<Rightarrow> float64" where
  "round64 s n d =
     (if n = 0 then Finite s 0 (- 1074)
      else
        let q = max (ilog2 n d - 52) (- 1074);
            m = (if 0 \<le> q then round_half_even n (d * 2 ^ nat q)
                 else round_half_even (n * 2 ^ nat (- q)) d);
            (m', q') = (if m = 2 ^ 53 then (2 ^ 52, q + 1) else (m, q))
        in if 971 < q' then Infinity s else Finite s m' q')"

text \<open>A constant of the program text, such as \<^verbatim>\<open>100.0\<close> or \<^verbatim>\<open>0.95\<close> (\<open>95 / 100\<close>).\<close>

definition float64_const :: "int \<Rightarrow> int \<Rightarrow> float64" where
  "float64_const n d = round64 False n d"

text \<open>The conversion \<^verbatim>\<open>float64(i)\<close> of an \<^verbatim>\<open>int64\<close>.\<close>

definition float64_of_int64 :: "int64 \<Rightarrow> float64" where
  "float64_of_int64 w = round64 (sint w < 0) \<bar>sint w\<bar> 1"

text \<open>
  The conversion \<^verbatim>\<open>int64(x)\<close> of a \<^verbatim>\<open>float64\<close> drops the fraction. Where the value
  does not fit, the Go specification leaves the result to the implementation: it is the
  parameter \<open>indef\<close>.
\<close>

definition int64_of_float64 :: "int64 \<Rightarrow> float64 \<Rightarrow> int64" where
  "int64_of_float64 indef x =
     (case x of
        Finite s m e \<Rightarrow>
          (let v = (if 0 \<le> e then m * 2 ^ nat e else m div 2 ^ nat (- e));
               i = (if s then - v else v)
           in if - (2 ^ 63) \<le> i \<and> i < 2 ^ 63 then word_of_int i else indef)
      | _ \<Rightarrow> indef)"

text \<open>\<^verbatim>\<open>x / y\<close> and \<^verbatim>\<open>x * y\<close> on \<^verbatim>\<open>float64\<close>.\<close>

fun fdiv :: "float64 \<Rightarrow> float64 \<Rightarrow> float64" where
  "fdiv NaN y = NaN"
| "fdiv x NaN = NaN"
| "fdiv (Infinity s) (Infinity t) = NaN"
| "fdiv (Infinity s) (Finite t m e) = Infinity (s \<noteq> t)"
| "fdiv (Finite s m e) (Infinity t) = Finite (s \<noteq> t) 0 (- 1074)"
| "fdiv (Finite s m e) (Finite t m' e') =
     (if m' = 0 then (if m = 0 then NaN else Infinity (s \<noteq> t))
      else round64 (s \<noteq> t) (m * 2 ^ nat (e - e')) (m' * 2 ^ nat (e' - e)))"

fun fmul :: "float64 \<Rightarrow> float64 \<Rightarrow> float64" where
  "fmul NaN y = NaN"
| "fmul x NaN = NaN"
| "fmul (Infinity s) (Infinity t) = Infinity (s \<noteq> t)"
| "fmul (Infinity s) (Finite t m e) = (if m = 0 then NaN else Infinity (s \<noteq> t))"
| "fmul (Finite s m e) (Infinity t) = (if m = 0 then NaN else Infinity (s \<noteq> t))"
| "fmul (Finite s m e) (Finite t m' e') =
     round64 (s \<noteq> t) (m * m' * 2 ^ nat (e + e')) (2 ^ nat (- (e + e')))"

subsection \<open>Formatting numbers: strconv.FormatFloat and the verbs of fmt\<close>

definition digit_char :: "int \<Rightarrow> char" where
  "digit_char d = ''0123456789'' ! nat d"

text \<open>The decimal digits of a non-negative integer.\<close>

function digits :: "int \<Rightarrow> string" where
  "digits n = (if n < 10 then [digit_char n] else digits (n div 10) @ [digit_char (n mod 10)])"
  by pat_completeness auto
termination
  by (relation "measure nat") auto

declare digits.simps [simp del]

text \<open>The verb \<^verbatim>\<open>%d\<close> on an \<^verbatim>\<open>int64\<close>.\<close>

definition fmt_d :: "int64 \<Rightarrow> string" where
  "fmt_d w = (let i = sint w in if i < 0 then ''-'' @ digits (- i) else digits i)"

definition sign_str :: "bool \<Rightarrow> string" where
  "sign_str s = (if s then ''-'' else [])"

text \<open>
  Format \<^verbatim>\<open>'f'\<close> with a precision \<open>prec \<ge> 0\<close>: the exact decimal expansion of the
  value, rounded to \<open>prec\<close> digits after the point, a tie to the even digit.
\<close>

definition fmt_fixed :: "nat \<Rightarrow> float64 \<Rightarrow> string" where
  "fmt_fixed prec x =
     (case x of
        NaN \<Rightarrow> ''NaN''
      | Infinity s \<Rightarrow> (if s then ''-Inf'' else ''+Inf'')
      | Finite s m e \<Rightarrow>
          (let N = round_half_even (m * 10 ^ prec * 2 ^ nat e) (2 ^ nat (- e));
               ip = digits (N div 10 ^ prec);
               fp = digits (N mod 10 ^ prec)
           in sign_str s @ ip @
              (if prec = 0 then []
               else ''.'' @ replicate (prec - length fp) (CHR ''0'') @ fp)))"

text \<open>
  Format \<^verbatim>\<open>'f'\<close> with precision \<^verbatim>\<open>-1\<close>: "the smallest number of digits necessary to
  represent the value uniquely", that is the shortest decimal that converts back to the
  same \<^verbatim>\<open>float64\<close>, and the nearest to the value among those of that length.
  \<open>dec_exp n d\<close> is the \<open>k\<close> with \<open>10^(k-1) \<le> n / d < 10^k\<close>; \<open>shortest\<close> tries
  1, 2, ... digits: at each length the candidates are the value cut off after that many
  digits and the next decimal above it (17 digits always suffice).
\<close>

function lead_zeros :: "int \<Rightarrow> int \<Rightarrow> int" where
  "lead_zeros n d = (if n \<le> 0 \<or> d \<le> 10 * n then 0 else lead_zeros (10 * n) d + 1)"
  by pat_completeness auto
termination
  by (relation "measure (\<lambda>(n, d). nat (d - n))") auto

declare lead_zeros.simps [simp del]

definition dec_exp :: "int \<Rightarrow> int \<Rightarrow> int" where
  "dec_exp n d = (if d \<le> n then int (length (digits (n div d))) else - lead_zeros n d)"

definition roundtrips :: "int \<Rightarrow> int \<Rightarrow> int \<Rightarrow> int \<Rightarrow> bool" where
  "roundtrips m e D p = (round64 False (D * 10 ^ nat p) (10 ^ nat (- p)) = Finite False m e)"

definition quot_rem :: "int \<Rightarrow> int \<Rightarrow> int \<Rightarrow> int \<times> int \<times> int" where
  "quot_rem m e p =
     (let num = m * 2 ^ nat e * 10 ^ nat (- p); den = 2 ^ nat (- e) * 10 ^ nat p
      in (num div den, num mod den, den))"

definition nearest :: "int \<times> int \<times> int \<Rightarrow> int" where
  "nearest c =
     (case c of (D, r, den) \<Rightarrow>
        if 2 * r < den then D else if den < 2 * r then D + 1
        else if even D then D else D + 1)"

fun shortest :: "nat \<Rightarrow> int \<Rightarrow> int \<Rightarrow> int \<Rightarrow> int \<Rightarrow> int \<times> int" where
  "shortest 0 nd m e k = (nearest (quot_rem m e (k - nd)), k - nd)"
| "shortest (Suc fuel) nd m e k =
     (let p = k - nd; c = quot_rem m e p; D = fst c;
          okdown = roundtrips m e D p; okup = roundtrips m e (D + 1) p
      in if fst (snd c) = 0 then (D, p)
         else if okdown \<and> okup then (nearest c, p)
         else if okdown then (D, p)
         else if okup then (D + 1, p)
         else shortest fuel (nd + 1) m e k)"

declare shortest.simps [simp del]

function strip_zeros :: "int \<Rightarrow> int \<Rightarrow> int \<times> int" where
  "strip_zeros D p =
     (if D \<noteq> 0 \<and> D mod 10 = 0 then strip_zeros (D div 10) (p + 1) else (D, p))"
  by pat_completeness auto
termination
  by (relation "measure (\<lambda>(D, p). nat \<bar>D\<bar>)") auto

declare strip_zeros.simps [simp del]

text \<open>
  \<^verbatim>\<open>fmtF\<close> of strconv lays the digits \<open>ds\<close> out around the decimal point, which stands
  after the first \<open>dp\<close> digits; the shortest format prints \<open>max (nd - dp) 0\<close> digits
  after the point, and no point when there are none.
\<close>

definition fmtF :: "string \<Rightarrow> int \<Rightarrow> string" where
  "fmtF ds dp =
     (let nd = length ds; prec = nat (int nd - dp)
      in (if 0 < dp then take (nat dp) ds @ replicate (nat dp - nd) (CHR ''0'') else ''0'') @
         (if 0 < prec
          then ''.'' @ map (\<lambda>i. let j = dp + int i
                                in if 0 \<le> j \<and> j < int nd then ds ! nat j else CHR ''0'')
                         [0..<prec]
          else []))"

definition fmt_shortest :: "float64 \<Rightarrow> string" where
  "fmt_shortest x =
     (case x of
        NaN \<Rightarrow> ''NaN''
      | Infinity s \<Rightarrow> (if s then ''-Inf'' else ''+Inf'')
      | Finite s m e \<Rightarrow>
          sign_str s @
          (if m = 0 then fmtF [] 0
           else let k = dec_exp (m * 2 ^ nat e) (2 ^ nat (- e));
                    (D, p) = shortest 16 1 m e k;
                    (D', p') = strip_zeros D p;
                    ds = digits D'
                in fmtF ds (int (length ds) + p')))"

text \<open>\<^verbatim>\<open>strconv.FormatFloat(x, 'f', prec, 64)\<close>.\<close>

definition FormatFloat_f :: "float64 \<Rightarrow> int \<Rightarrow> string" where
  "FormatFloat_f x prec = (if prec < 0 then fmt_shortest x else fmt_fixed (nat prec) x)"

text \<open>
  \<^verbatim>\<open>fmt.Sprintf\<close> for the verbs the exporter uses: \<^verbatim>\<open>%s\<close>, \<^verbatim>\<open>%d\<close>, \<^verbatim>\<open>%f\<close>
  (six digits after the point), \<^verbatim>\<open>%.Nf\<close> for one digit \<open>N\<close>, and \<^verbatim>\<open>%T\<close> (the name
  of the operand's dynamic type). On a \<^verbatim>\<open>float64\<close>, \<^verbatim>\<open>%f\<close> prints what
  \<^verbatim>\<open>FormatFloat\<close> gives. Every call of the exporter pairs each verb with an operand of
  its type; for any other pairing Go prints a diagnostic that starts with \<^verbatim>\<open>%!\<close>, of
  which the model keeps that start only; a \<^verbatim>\<open>%\<close> that starts none of these verbs is
  kept as it is.
\<close>

datatype arg = S string | D int64 | F float64 | T string

datatype verb = Lit char | Verb_s | Verb_d | Verb_f nat | Verb_T

definition digit_value :: "char \<Rightarrow> nat option" where
  "digit_value p = Index ''0123456789'' [p]"

fun parse_format :: "string \<Rightarrow> verb list" where
  "parse_format [] = []"
| "parse_format [c] = [Lit c]"
| "parse_format (c # d # fs) =
     (if c \<noteq> CHR ''%'' then Lit c # parse_format (d # fs)
      else if d = CHR ''s'' then Verb_s # parse_format fs
      else if d = CHR ''d'' then Verb_d # parse_format fs
      else if d = CHR ''f'' then Verb_f 6 # parse_format fs
      else if d = CHR ''T'' then Verb_T # parse_format fs
      else (case fs of
              p # f # rest \<Rightarrow>
                (case digit_value p of
                   Some n \<Rightarrow>
                     if d = CHR ''.'' \<and> f = CHR ''f'' then Verb_f n # parse_format rest
                     else Lit c # parse_format (d # fs)
                 | None \<Rightarrow> Lit c # parse_format (d # fs))
            | _ \<Rightarrow> Lit c # parse_format (d # fs)))"

fun render :: "verb list \<Rightarrow> arg list \<Rightarrow> string" where
  "render [] as = []"
| "render (Lit c # vs) as = c # render vs as"
| "render (Verb_s # vs) (S s # as) = s @ render vs as"
| "render (Verb_d # vs) (D i # as) = fmt_d i @ render vs as"
| "render (Verb_f p # vs) (F x # as) = FormatFloat_f x (int p) @ render vs as"
| "render (Verb_T # vs) (T n # as) = n @ render vs as"
| "render (v # vs) as = ''%!'' @ render vs (tl as)"

definition Sprintf :: "string \<Rightarrow> arg list \<Rightarrow> string" where
  "Sprintf format as = render (parse_format format) as"

subsection \<open>Metrics, configuration and the effects of a flush cycle\<close>

text \<open>
  The snapshots of package go-metrics, as far as the exporter reads them. \<open>hPercentile\<close>
  and \<open>tPercentile\<close> are the percentile query of the sample: \<^verbatim>\<open>Percentiles(ps)\<close>
  returns one score for each fraction of \<^verbatim>\<open>ps\<close>, in the order of \<^verbatim>\<open>ps\<close>.
\<close>

record HistogramSnapshot =
  hCount :: int64
  hMin :: int64
  hMax :: int64
  hMean :: float64
  hStdDev :: float64
  hPercentile :: "float64 \<Rightarrow> float64"

record MeterSnapshot =
  mCount :: int64
  mRate1 :: float64
  mRate5 :: float64
  mRate15 :: float64
  mRateMean :: float64

record TimerSnapshot =
  tCount :: int64
  tMin :: int64
  tMax :: int64
  tMean :: float64
  tStdDev :: float64
  tPercentile :: "float64 \<Rightarrow> float64"
  tRate1 :: float64
  tRate5 :: float64
  tRate15 :: float64
  tRateMean :: float64

text \<open>
  The value \<^verbatim>\<open>i interface{}\<close> that the registry hands to the callback, by the case of
  the type switch that takes it: a counter with its count, a gauge with its value, the
  snapshots, and \<open>Other\<close> for a value of any other dynamic type, with the name that
  \<^verbatim>\<open>%T\<close> prints for it.
\<close>

datatype metric =
    Counter int64
  | Gauge int64
  | GaugeFloat64 float64
  | Histogram HistogramSnapshot
  | Meter MeterSnapshot
  | Timer TimerSnapshot
  | Other string

record TCPAddr =
  IP :: "8 word list"
  Port :: int
  Zone :: string

text \<open>
  \<^verbatim>\<open>Config\<close>. The registry is the list of the named metrics in the order in which
  \<^verbatim>\<open>Registry.Each\<close> visits them; durations are \<^verbatim>\<open>int64\<close> nanoseconds.
\<close>

record Config =
  Addr :: "TCPAddr option"
  Registry :: "(string \<times> metric) list"
  FlushInterval :: int64
  DurationUnit :: int64
  Prefix :: string
  Percentiles :: "float64 list"

definition Second :: int64 where
  "Second = 1000000000"

datatype error = OpError string

text \<open>A computation returns, or panics with a message.\<close>

datatype 'a run = Done 'a | Panic string

text \<open>
  What is outside the program: the clock (\<open>unix_time ev n\<close> is what the \<open>n\<close>-th call
  of \<^verbatim>\<open>time.Now().Unix()\<close> returns), the network (dialling an address fails with an
  error or opens a connection, which accepts a number of bytes before its writes fail,
  \<open>None\<close> for no limit), and the implementation-dependent result of an \<^verbatim>\<open>int64\<close>
  conversion out of range.
\<close>

record env =
  unix_time :: "nat \<Rightarrow> int64"
  dial :: "TCPAddr \<Rightarrow> error + nat option"
  indef :: int64

text \<open>
  The effects of one cycle: the calls of the clock, the names the registry passed to the
  callback, the lines handed to \<^verbatim>\<open>fmt.Fprintf\<close>, the \<^verbatim>\<open>bufio.Writer\<close> (its pending
  bytes and its sticky error: after a failed write it accepts no more data), the
  connection (the bytes it accepted, the bytes it still accepts, whether it was closed)
  and the output of package log. The writer's buffer size decides when bytes reach the
  connection, not which bytes: the model passes them on at \<^verbatim>\<open>Flush\<close>.
\<close>

record cycle =
  now_calls :: nat
  visited :: "string list"
  printed :: "string list"
  buffered :: string
  werr :: bool
  sent :: string
  room :: "nat option"
  closed :: bool
  logged :: "string list"

definition start :: cycle where
  "start = \<lparr>now_calls = 0, visited = [], printed = [], buffered = [], werr = False,
            sent = [], room = None, closed = False, logged = []\<rparr>"

definition time_Now_Unix :: "env \<Rightarrow> cycle \<Rightarrow> int64 \<times> cycle" where
  "time_Now_Unix ev w = (unix_time ev (now_calls w), w\<lparr>now_calls := Suc (now_calls w)\<rparr>)"

text \<open>\<^verbatim>\<open>net.DialTCP("tcp", nil, c.Addr)\<close>; a nil address is an error.\<close>

definition DialTCP :: "env \<Rightarrow> TCPAddr option \<Rightarrow> error + nat option" where
  "DialTCP ev raddr =
     (case raddr of None \<Rightarrow> Inl (OpError ''missing address'') | Some a \<Rightarrow> dial ev a)"

definition Fprintf :: "string \<Rightarrow> arg list \<Rightarrow> cycle \<Rightarrow> cycle" where
  "Fprintf format as w =
     (let line = Sprintf format as
      in w\<lparr>printed := printed w @ [line],
           buffered := (if werr w then buffered w else buffered w @ line)\<rparr>)"

definition Flush :: "cycle \<Rightarrow> cycle" where
  "Flush w =
     (if werr w \<or> buffered w = [] then w
      else case room w of
        None \<Rightarrow> w\<lparr>sent := sent w @ buffered w, buffered := []\<rparr>
      | Some k \<Rightarrow>
          if length (buffered w) \<le> k
          then w\<lparr>sent := sent w @ buffered w, room := Some (k - length (buffered w)),
                 buffered := []\<rparr>
          else w\<lparr>sent := sent w @ take k (buffered w), room := Some 0,
                 buffered := drop k (buffered w), werr := True\<rparr>)"

definition log_Printf :: "string \<Rightarrow> arg list \<Rightarrow> cycle \<Rightarrow> cycle" where
  "log_Printf format as w = w\<lparr>logged := logged w @ [Sprintf format as]\<rparr>"

text \<open>Statements in sequence, and \<^verbatim>\<open>for i, x := range xs\<close>.\<close>

definition run_all :: "('s \<Rightarrow> 's) list \<Rightarrow> 's \<Rightarrow> 's" where
  "run_all fs s = foldl (\<lambda>s f. f s) s fs"

fun range_loop :: "(nat \<Rightarrow> 'a \<Rightarrow> 's \<Rightarrow> 's) \<Rightarrow> nat \<Rightarrow> 'a list \<Rightarrow> 's \<Rightarrow> 's" where
  "range_loop body i [] s = s"
| "range_loop body i (x # xs) s = range_loop body (Suc i) xs (body i x s)"

text \<open>\<^verbatim>\<open>Registry.Each\<close>: the callback on every metric, in order; a panic ends it.\<close>

fun Each :: "(string \<Rightarrow> metric \<Rightarrow> 's \<Rightarrow> 's run) \<Rightarrow> (string \<times> metric) list \<Rightarrow> 's \<Rightarrow> 's run" where
  "Each f [] s = Done s"
| "Each f ((name, i) # r) s =
     (case f name i s of Panic msg \<Rightarrow> Panic msg | Done s' \<Rightarrow> Each f r s')"

subsection \<open>The exporter: graphite and Once\<close>

text \<open>
  The key of a percentile line (lines 87 and 108):
  \<^verbatim>\<open>strings.Replace(strconv.FormatFloat(psKey*100.0, 'f', -1, 64), ".", "", 1)\<close>.
\<close>

definition percentile_key :: "float64 \<Rightarrow> string" where
  "percentile_key psKey =
     Replace (FormatFloat_f (fmul psKey (float64_const 100 1)) (- 1)) ''.'' [] 1"

text \<open>
  The \<^verbatim>\<open>Fprintf\<close> of the two percentile loops (lines 88 and 109); \<open>v\<close> is
  \<^verbatim>\<open>ps[psIdx]\<close>, divided by \<^verbatim>\<open>du\<close> in the timer's loop. The operands are in the
  order of the source: prefix, name, tags, key.
\<close>

definition percentile_Fprintf ::
    "Config \<Rightarrow> string \<Rightarrow> string \<Rightarrow> int64 \<Rightarrow> float64 \<Rightarrow> float64 \<Rightarrow> cycle \<Rightarrow> cycle" where
  "percentile_Fprintf c name tags now psKey v =
     (let key = percentile_key psKey
      in Fprintf (''%s.%s.%s-percentile%s %.2f %d'' @ [CHR 0x0A])
           [S (Prefix c), S name, S tags, S key, F v, D now])"

text \<open>The cases of the type switch (lines 70 to 117), each followed by \<^verbatim>\<open>w.Flush()\<close>.\<close>

definition case_Counter ::
    "Config \<Rightarrow> int64 \<Rightarrow> float64 \<Rightarrow> string \<Rightarrow> string \<Rightarrow> int64 \<Rightarrow> cycle \<Rightarrow> cycle" where
  "case_Counter c now flushSeconds name tags count =
     run_all
       [Fprintf (''%s.%s.count%s %d %d'' @ [CHR 0x0A])
          [S (Prefix c), S name, S tags, D count, D now],
        Fprintf (''%s.%s.count_ps%s %.2f %d'' @ [CHR 0x0A])
          [S (Prefix c), S name, S tags, F (fdiv (float64_of_int64 count) flushSeconds), D now]]"

definition case_Gauge :: "Config \<Rightarrow> int64 \<Rightarrow> string \<Rightarrow> string \<Rightarrow> int64 \<Rightarrow> cycle \<Rightarrow> cycle" where
  "case_Gauge c now name tags v =
     Fprintf (''%s.%s.value%s %d %d'' @ [CHR 0x0A]) [S (Prefix c), S name, S tags, D v, D now]"

definition case_GaugeFloat64 ::
    "Config \<Rightarrow> int64 \<Rightarrow> string \<Rightarrow> string \<Rightarrow> float64 \<Rightarrow> cycle \<Rightarrow> cycle" where
  "case_GaugeFloat64 c now name tags v =
     Fprintf (''%s.%s.value%s %f %d'' @ [CHR 0x0A]) [S (Prefix c), S name, S tags, F v, D now]"

definition case_Histogram ::
    "Config \<Rightarrow> int64 \<Rightarrow> string \<Rightarrow> string \<Rightarrow> HistogramSnapshot \<Rightarrow> cycle \<Rightarrow> cycle" where
  "case_Histogram c now name tags h =
     (let ps = map (hPercentile h) (Percentiles c)
      in run_all
           [Fprintf (''%s.%s.count%s %d %d'' @ [CHR 0x0A])
              [S (Prefix c), S name, S tags, D (hCount h), D now],
            Fprintf (''%s.%s.min%s %d %d'' @ [CHR 0x0A])
              [S (Prefix c), S name, S tags, D (hMin h), D now],
            Fprintf (''%s.%s.max%s %d %d'' @ [CHR 0x0A])
              [S (Prefix c), S name, S tags, D (hMax h), D now],
            Fprintf (''%s.%s.mean%s %.2f %d'' @ [CHR 0x0A])
              [S (Prefix c), S name, S tags, F (hMean h), D now],
            Fprintf (''%s.%s.std-dev%s %.2f %d'' @ [CHR 0x0A])
              [S (Prefix c), S name, S tags, F (hStdDev h), D now],
            range_loop (\<lambda>psIdx psKey. percentile_Fprintf c name tags now psKey (ps ! psIdx)) 0
              (Percentiles c)])"

definition case_Meter ::
    "Config \<Rightarrow> int64 \<Rightarrow> string \<Rightarrow> string \<Rightarrow> MeterSnapshot \<Rightarrow> cycle \<Rightarrow> cycle" where
  "case_Meter c now name tags m =
     run_all
       [Fprintf (''%s.%s.count%s %d %d'' @ [CHR 0x0A])
          [S (Prefix c), S name, S tags, D (mCount m), D now],
        Fprintf (''%s.%s.one-minute%s %.2f %d'' @ [CHR 0x0A])
          [S (Prefix c), S name, S tags, F (mRate1 m), D now],
        Fprintf (''%s.%s.five-minute%s %.2f %d'' @ [CHR 0x0A])
          [S (Prefix c), S name, S tags, F (mRate5 m), D now],
        Fprintf (''%s.%s.fifteen-minute%s %.2f %d'' @ [CHR 0x0A])
          [S (Prefix c), S name, S tags, F (mRate15 m), D now],
        Fprintf (''%s.%s.mean%s %.2f %d'' @ [CHR 0x0A])
          [S (Prefix c), S name, S tags, F (mRateMean m), D now]]"

text \<open>
  The timer divides \<^verbatim>\<open>t.Min()\<close> and \<^verbatim>\<open>t.Max()\<close> by \<^verbatim>\<open>int64(du)\<close>: when that is
  zero, the division panics, after the first two lines were printed.
\<close>

definition case_Timer ::
    "env \<Rightarrow> Config \<Rightarrow> int64 \<Rightarrow> float64 \<Rightarrow> float64 \<Rightarrow> string \<Rightarrow> string \<Rightarrow> TimerSnapshot
       \<Rightarrow> cycle \<Rightarrow> cycle run" where
  "case_Timer ev c now du flushSeconds name tags t w =
     (let ps = map (tPercentile t) (Percentiles c);
          count = tCount t;
          w1 = run_all
                 [Fprintf (''%s.%s.count%s %d %d'' @ [CHR 0x0A])
                    [S (Prefix c), S name, S tags, D count, D now],
                  Fprintf (''%s.%s.count_ps%s %.2f %d'' @ [CHR 0x0A])
                    [S (Prefix c), S name, S tags,
                     F (fdiv (float64_of_int64 count) flushSeconds), D now]] w
      in if int64_of_float64 (indef ev) du = 0
         then Panic ''runtime error: integer divide by zero''
         else Done (run_all
           [Fprintf (''%s.%s.min%s %d %d'' @ [CHR 0x0A])
              [S (Prefix c), S name, S tags,
               D (int64_quo (tMin t) (int64_of_float64 (indef ev) du)), D now],
            Fprintf (''%s.%s.max%s %d %d'' @ [CHR 0x0A])
              [S (Prefix c), S name, S tags,
               D (int64_quo (tMax t) (int64_of_float64 (indef ev) du)), D now],
            Fprintf (''%s.%s.mean%s %.2f %d'' @ [CHR 0x0A])
              [S (Prefix c), S name, S tags, F (fdiv (tMean t) du), D now],
            Fprintf (''%s.%s.std-dev%s %.2f %d'' @ [CHR 0x0A])
              [S (Prefix c), S name, S tags, F (fdiv (tStdDev t) du), D now],
            range_loop
              (\<lambda>psIdx psKey. percentile_Fprintf c name tags now psKey (fdiv (ps ! psIdx) du)) 0
              (Percentiles c),
            Fprintf (''%s.%s.one-minute%s %.2f %d'' @ [CHR 0x0A])
              [S (Prefix c), S name, S tags, F (tRate1 t), D now],
            Fprintf (''%s.%s.five-minute%s %.2f %d'' @ [CHR 0x0A])
              [S (Prefix c), S name, S tags, F (tRate5 t), D now],
            Fprintf (''%s.%s.fifteen-minute%s %.2f %d'' @ [CHR 0x0A])
              [S (Prefix c), S name, S tags, F (tRate15 t), D now],
            Fprintf (''%s.%s.mean-rate%s %.2f %d'' @ [CHR 0x0A])
              [S (Prefix c), S name, S tags, F (tRateMean t), D now]] w1))"

definition case_default :: "string \<Rightarrow> cycle \<Rightarrow> cycle" where
  "case_default tyname =
     log_Printf (''unable to record metric of type %T'' @ [CHR 0x0A]) [T tyname]"

text \<open>The function literal that \<^verbatim>\<open>graphite\<close> passes to \<^verbatim>\<open>c.Registry.Each\<close>.\<close>

definition callback ::
    "env \<Rightarrow> Config \<Rightarrow> int64 \<Rightarrow> float64 \<Rightarrow> float64 \<Rightarrow> string \<Rightarrow> metric \<Rightarrow> cycle \<Rightarrow> cycle run" where
  "callback ev c now du flushSeconds name0 i w0 =
     (let (name, tags) = splitNameAndTags name0;
          w = w0\<lparr>visited := visited w0 @ [name0]\<rparr>
      in case (case i of
            Counter count \<Rightarrow> Done (case_Counter c now flushSeconds name tags count w)
          | Gauge v \<Rightarrow> Done (case_Gauge c now name tags v w)
          | GaugeFloat64 v \<Rightarrow> Done (case_GaugeFloat64 c now name tags v w)
          | Histogram h \<Rightarrow> Done (case_Histogram c now name tags h w)
          | Meter m \<Rightarrow> Done (case_Meter c now name tags m w)
          | Timer t \<Rightarrow> case_Timer ev c now du flushSeconds name tags t w
          | Other tyname \<Rightarrow> Done (case_default tyname w)) of
           Panic msg \<Rightarrow> Panic msg
         | Done w' \<Rightarrow> Done (Flush w'))"

text \<open>
  \<^verbatim>\<open>graphite\<close> (lines 57 to 121): the result is the returned error (\<open>None\<close> is
  \<^verbatim>\<open>nil\<close>) and the effects; the deferred \<^verbatim>\<open>conn.Close()\<close> runs when it returns.
\<close>

definition graphite :: "env \<Rightarrow> Config \<Rightarrow> (error option \<times> cycle) run" where
  "graphite ev c =
     (let (now, w) = time_Now_Unix ev start;
          du = float64_of_int64 (DurationUnit c);
          flushSeconds = fdiv (float64_of_int64 (FlushInterval c)) (float64_of_int64 Second)
      in case DialTCP ev (Addr c) of
           Inl err \<Rightarrow> Done (Some err, w)
         | Inr k \<Rightarrow>
             (case Each (callback ev c now du flushSeconds) (Registry c) (w\<lparr>room := k\<rparr>) of
                Panic msg \<Rightarrow> Panic msg
              | Done w' \<Rightarrow> Done (None, w'\<lparr>closed := True\<rparr>)))"

definition Once :: "env \<Rightarrow> Config \<Rightarrow> (error option \<times> cycle) run" where
  "Once ev c = graphite ev c"

subsection \<open>The wire format as the specification words it, and example inputs\<close>

text \<open>
  One line of the wire protocol, as the specification gives it:
  \<^verbatim>\<open><prefix>.<metricName>.<field><tagSuffix> <value> <unixTimestampSeconds>\n\<close>.
\<close>

definition wire_line :: "string \<Rightarrow> string \<Rightarrow> string \<Rightarrow> string \<Rightarrow> string \<Rightarrow> int64 \<Rightarrow> string" where
  "wire_line prefix name field tags val ts =
     prefix @ ''.'' @ name @ ''.'' @ field @ tags @ '' '' @ val @ '' '' @ fmt_d ts @ [CHR 0x0A]"

text \<open>The text that \<open>percentile_Fprintf\<close> prints: its format applied to its operands.\<close>

definition percentile_line ::
    "Config \<Rightarrow> string \<Rightarrow> string \<Rightarrow> int64 \<Rightarrow> float64 \<Rightarrow> float64 \<Rightarrow> string" where
  "percentile_line c name tags now psKey v =
     Sprintf (''%s.%s.%s-percentile%s %.2f %d'' @ [CHR 0x0A])
       [S (Prefix c), S name, S tags, S (percentile_key psKey), F v, D now]"

text \<open>
  The lines of a timer as the specification lists them: \<open>count\<close>, \<open>count_ps\<close>,
  \<open>min\<close> and \<open>max\<close> divided by the integer \<open>q\<close> with integer division, \<open>mean\<close>,
  \<open>std-dev\<close> and the percentile values divided by the float \<open>du\<close>, then the four
  rates as they are.
\<close>

definition timer_lines ::
    "Config \<Rightarrow> int64 \<Rightarrow> float64 \<Rightarrow> float64 \<Rightarrow> int64 \<Rightarrow> string \<Rightarrow> string \<Rightarrow> TimerSnapshot \<Rightarrow> string list" where
  "timer_lines c now du fs q name tags t =
     [wire_line (Prefix c) name ''count'' tags (fmt_d (tCount t)) now,
      wire_line (Prefix c) name ''count_ps'' tags
        (FormatFloat_f (fdiv (float64_of_int64 (tCount t)) fs) 2) now,
      wire_line (Prefix c) name ''min'' tags (fmt_d (int64_quo (tMin t) q)) now,
      wire_line (Prefix c) name ''max'' tags (fmt_d (int64_quo (tMax t) q)) now,
      wire_line (Prefix c) name ''mean'' tags (FormatFloat_f (fdiv (tMean t) du) 2) now,
      wire_line (Prefix c) name ''std-dev'' tags (FormatFloat_f (fdiv (tStdDev t) du) 2) now] @
     map (\<lambda>p. percentile_line c name tags now p (fdiv (tPercentile t p) du)) (Percentiles c) @
     [wire_line (Prefix c) name ''one-minute'' tags (FormatFloat_f (tRate1 t) 2) now,
      wire_line (Prefix c) name ''five-minute'' tags (FormatFloat_f (tRate5 t) 2) now,
      wire_line (Prefix c) name ''fifteen-minute'' tags (FormatFloat_f (tRate15 t) 2) now,
      wire_line (Prefix c) name ''mean-rate'' tags (FormatFloat_f (tRateMean t) 2) now]"

text \<open>A line is stamped with \<open>ts\<close> when it ends with a space, \<open>ts\<close> and a newline.\<close>

definition stamped :: "int64 \<Rightarrow> string \<Rightarrow> bool" where
  "stamped ts l =
     (let t = '' '' @ fmt_d ts @ [CHR 0x0A]
      in length t \<le> length l \<and> drop (length l - length t) l = t)"

text \<open>
  The percentile key in the specification's words: \<open>p * 100\<close> formatted with minimal
  decimal digits, then the first decimal point deleted.
\<close>

definition spec_pctKey :: "float64 \<Rightarrow> string" where
  "spec_pctKey p = remove1 (CHR ''.'') (fmt_shortest (fmul p (float64_const 100 1)))"

text \<open>
  The lines of a histogram as the specification lists them: \<open>count\<close>, \<open>min\<close>,
  \<open>max\<close>, \<open>mean\<close>, \<open>std-dev\<close>, then for each configured fraction \<open>p\<close>, in the
  order of the list, the field \<^verbatim>\<open><pctKey>-percentile\<close> with the value at \<open>p\<close>.
\<close>

definition spec_histogram_lines ::
    "Config \<Rightarrow> int64 \<Rightarrow> string \<Rightarrow> string \<Rightarrow> HistogramSnapshot \<Rightarrow> string list" where
  "spec_histogram_lines c now name tags h =
     [wire_line (Prefix c) name ''count'' tags (fmt_d (hCount h)) now,
      wire_line (Prefix c) name ''min'' tags (fmt_d (hMin h)) now,
      wire_line (Prefix c) name ''max'' tags (fmt_d (hMax h)) now,
      wire_line (Prefix c) name ''mean'' tags (FormatFloat_f (hMean h) 2) now,
      wire_line (Prefix c) name ''std-dev'' tags (FormatFloat_f (hStdDev h) 2) now] @
     map (\<lambda>p. wire_line (Prefix c) name (spec_pctKey p @ ''-percentile'') tags
                (FormatFloat_f (hPercentile h p) 2) now)
       (Percentiles c)"

text \<open>What a computation returned, if it returned.\<close>

fun result :: "'a run \<Rightarrow> 'a option" where
  "result (Done x) = Some x"
| "result (Panic msg) = None"

text \<open>
  Example inputs: a clock that starts at 1700000000, a network whose every dial gives
  \<open>d\<close>, a histogram, a timer with durations in nanoseconds, and a configuration with a
  flush interval of 10 s and the millisecond as duration unit.
\<close>

definition ex_env :: "error + nat option \<Rightarrow> env" where
  "ex_env d = \<lparr>unix_time = (\<lambda>n. 1700000000 + of_nat n), dial = (\<lambda>a. d), indef = 0\<rparr>"

definition ex_hist :: HistogramSnapshot where
  "ex_hist = \<lparr>hCount = 3, hMin = 1, hMax = 9, hMean = float64_const 13 3,
              hStdDev = float64_const 1 8, hPercentile = (\<lambda>p. fmul p (float64_const 9 1))\<rparr>"

definition ex_timer :: TimerSnapshot where
  "ex_timer = \<lparr>tCount = 3, tMin = 1500000, tMax = 9000000, tMean = float64_const 4500000 1,
               tStdDev = float64_const 1000001 8,
               tPercentile = (\<lambda>p. fmul p (float64_const 9000000 1)),
               tRate1 = float64_const 1 3, tRate5 = float64_const 2 3,
               tRate15 = float64_const 1 1, tRateMean = float64_const 1 7\<rparr>"

definition ex_config :: "(string \<times> metric) list \<Rightarrow> Config" where
  "ex_config reg = \<lparr>Addr = Some \<lparr>IP = [127, 0, 0, 1], Port = 2003, Zone = []\<rparr>,
     Registry = reg, FlushInterval = 10000000000, DurationUnit = 1000000, Prefix = ''app'',
     Percentiles = [float64_const 95 100, float64_const 5 10]\<rparr>"

subsection \<open>Facts about the string functions\<close>

lemma Index_single_None: "Index s [c] = None \<longleftrightarrow> c \<notin> set s"
  by (induction s) auto

lemma Index_single_Some:
  "Index s [c] = Some m \<Longrightarrow> m < length s \<and> s ! m = c \<and> c \<notin> set (take m s)"
proof (induction s arbitrary: m)
  case Nil
  then show ?case by simp
next
  case (Cons a s)
  show ?case
  proof (cases "a = c")
    case True
    with Cons.prems show ?thesis by simp
  next
    case False
    with Cons.prems obtain k where k: "Index s [c] = Some k" "m = Suc k"
      by auto
    from Cons.IH [OF k(1)] False k(2) show ?thesis by simp
  qed
qed

lemma splitNameAndTags_no_semicolon:
  "CHR '';'' \<notin> set s \<Longrightarrow> splitNameAndTags s = (s, '''')"
  by (simp add: splitNameAndTags_def Contains_def Index_single_None)

lemma splitNameAndTags_semicolon:
  assumes "Index s '';'' = Some m"
  shows "splitNameAndTags s = (take m s, '';'' @ drop (Suc m) s)"
proof -
  from Index_single_Some [OF assms] have len: "s \<noteq> []"
    by auto
  have "SplitN s '';'' 2 = [take m s, drop (Suc m) s]"
    using assms len by (simp add: SplitN_def numeral_2_eq_2)
  then show ?thesis
    using assms by (simp add: splitNameAndTags_def Contains_def)
qed

lemma remove1_Index_None: "Index s [c] = None \<Longrightarrow> remove1 c s = s"
  by (induction s) (auto split: if_splits)

lemma remove1_Index_Some: "Index s [c] = Some j \<Longrightarrow> remove1 c s = take j s @ drop (Suc j) s"
proof (induction s arbitrary: j)
  case Nil
  then show ?case by simp
next
  case (Cons a s)
  show ?case
  proof (cases "a = c")
    case True
    with Cons.prems show ?thesis by simp
  next
    case False
    with Cons.prems obtain k where k: "Index s [c] = Some k" "j = Suc k"
      by auto
    from Cons.IH [OF k(1)] False k(2) show ?thesis by simp
  qed
qed

lemma Replace_first: "Replace s [c] [] 1 = remove1 c s"
  by (cases "Index s [c]")
     (simp_all add: Replace_def remove1_Index_None remove1_Index_Some)

subsection \<open>Facts about the number conversions\<close>

lemma bits_pos: "0 < n \<Longrightarrow> 1 \<le> bits n"
proof (induction n rule: bits.induct)
  case (1 n)
  have "bits n = bits (n div 2) + 1" using "1.prems" by (simp add: bits.simps)
  moreover have "0 \<le> bits (n div 2)"
  proof (cases "0 < n div 2")
    case True
    with "1.IH" "1.prems" show ?thesis by simp
  next
    case False
    then show ?thesis by (simp add: bits.simps)
  qed
  ultimately show ?case by simp
qed

lemma bits_bounds: "0 < n \<Longrightarrow> 2 ^ nat (bits n - 1) \<le> n \<and> n < 2 ^ nat (bits n)"
proof (induction n rule: bits.induct)
  case (1 n)
  have b: "bits n = bits (n div 2) + 1" using "1.prems" by (simp add: bits.simps)
  show ?case
  proof (cases "0 < n div 2")
    case True
    with "1.IH" "1.prems"
    have ih: "2 ^ nat (bits (n div 2) - 1) \<le> n div 2" "n div 2 < 2 ^ nat (bits (n div 2))"
      by simp_all
    from bits_pos [OF True] have p: "nat (bits (n div 2)) = Suc (nat (bits (n div 2) - 1))"
      by simp
    have d: "2 * (n div 2) \<le> n" "n < 2 * (n div 2) + 2"
      by presburger+
    have "(2::int) ^ nat (bits (n div 2)) = 2 * 2 ^ nat (bits (n div 2) - 1)"
      by (subst p) simp
    with ih(1) d(1) have "2 ^ nat (bits (n div 2)) \<le> n"
      by linarith
    moreover have "n < 2 ^ nat (bits (n div 2) + 1)"
    proof -
      have "nat (bits (n div 2) + 1) = Suc (nat (bits (n div 2)))"
        using bits_pos [OF True] by simp
      then have "(2::int) ^ nat (bits (n div 2) + 1) = 2 * 2 ^ nat (bits (n div 2))"
        by simp
      with ih(2) d(2) show ?thesis by linarith
    qed
    ultimately show ?thesis by (simp add: b)
  next
    case False
    with "1.prems" have "n = 1" by linarith
    then show ?thesis by (simp add: bits.simps)
  qed
qed

lemma bits_1: "bits 1 = 1"
  by (simp add: bits.simps [of 1] bits.simps [of 0])

lemma ilog2_int: "0 < n \<Longrightarrow> ilog2 n 1 = bits n - 1"
  using bits_pos [of n] bits_bounds [of n] by (simp add: ilog2_def bits_1)

lemma round_half_even_1: "round_half_even n 1 = n"
  by (simp add: round_half_even_def)

lemma round64_small_int:
  assumes "0 < n" "n \<le> 2 ^ 53"
  shows "\<exists>m e. round64 s n 1 = Finite s m e \<and> e \<le> 1
           \<and> (if 0 \<le> e then m * 2 ^ nat e else m div 2 ^ nat (- e)) = n"
proof -
  define e where "e = bits n - 1"
  have e0: "0 \<le> e" using bits_pos [OF assms(1)] by (simp add: e_def)
  have lo: "2 ^ nat e \<le> n" and hi: "n < 2 ^ nat (e + 1)"
    using bits_bounds [OF assms(1)] by (simp_all add: e_def)
  have "(2::int) ^ nat e \<le> 2 ^ 53" using lo assms(2) by linarith
  have "nat e \<le> 53"
  proof (rule power_le_imp_le_exp)
    show "1 < (2::int)" by simp
    show "(2::int) ^ nat e \<le> 2 ^ 53" by fact
  qed
  then have e53: "e \<le> 53" by linarith
  have il: "ilog2 n 1 = e" using ilog2_int [OF assms(1)] by (simp add: e_def)
  show ?thesis
  proof (cases "e = 53")
    case True
    with lo assms(2) have n: "n = 2 ^ 53" by simp
    show ?thesis
      unfolding round64_def il True by (simp add: n round_half_even_def Let_def)
  next
    case False
    with e53 have e52: "e \<le> 52" by simp
    have "nat (e + 1) \<le> 53" using e52 e0 by linarith
    then have "(2::int) ^ nat (e + 1) \<le> 2 ^ 53"
      by (intro power_increasing) simp_all
    with hi have n53: "n < 2 ^ 53" by linarith
    show ?thesis
    proof (cases "e = 52")
      case True
      then show ?thesis
        using assms(1) n53 unfolding round64_def il True
        by (simp add: round_half_even_1 Let_def)
    next
      case False
      with e52 have lt: "e < 52" by simp
      have "n * 2 ^ nat (52 - e) < 2 ^ nat (e + 1) * 2 ^ nat (52 - e)"
        using hi by simp
      also have "\<dots> = 2 ^ (nat (e + 1) + nat (52 - e))"
        by (simp add: power_add)
      also have "nat (e + 1) + nat (52 - e) = 53"
        using e0 lt by linarith
      finally have m53: "n * 2 ^ nat (52 - e) < 2 ^ 53" by simp
      have q: "max (e - 52) (- 1074) = e - 52" using e0 by simp
      show ?thesis
        using assms(1) lt m53 unfolding round64_def il q
        by (simp add: round_half_even_1 Let_def)
    qed
  qed
qed

lemma int64_float64_roundtrip:
  assumes "\<bar>sint u\<bar> \<le> 2 ^ 53"
  shows "int64_of_float64 d (float64_of_int64 u) = u"
proof (cases "sint u = 0")
  case True
  then have "word_of_int (sint u) = (word_of_int 0 :: int64)" by simp
  then have "u = 0" by simp
  then show ?thesis
    by (simp add: float64_of_int64_def round64_def int64_of_float64_def)
next
  case False
  then have pos: "0 < \<bar>sint u\<bar>" by simp
  from round64_small_int [OF pos assms, of "sint u < 0"]
  obtain m e where me: "round64 (sint u < 0) \<bar>sint u\<bar> 1 = Finite (sint u < 0) m e"
    "(if 0 \<le> e then m * 2 ^ nat e else m div 2 ^ nat (- e)) = \<bar>sint u\<bar>"
    by blast
  have rng: "- (2 ^ 63) \<le> sint u" "sint u < 2 ^ 63"
    using sint_ge [of u] sint_lt [of u] by simp_all
  have "(if sint u < 0 then - \<bar>sint u\<bar> else \<bar>sint u\<bar>) = sint u" by simp
  then show ?thesis
    using me rng by (simp add: float64_of_int64_def int64_of_float64_def Let_def)
qed

subsection \<open>Facts about the lines a case of the type switch prints\<close>

lemma printed_Fprintf: "printed (Fprintf format as w) = printed w @ [Sprintf format as]"
  by (simp add: Fprintf_def Let_def)

lemma printed_Flush: "printed (Flush w) = printed w"
  by (simp add: Flush_def split: option.splits)

lemma printed_percentile_Fprintf:
  "printed (percentile_Fprintf c name tags now psKey v w)
     = printed w @ [percentile_line c name tags now psKey v]"
  by (simp add: percentile_Fprintf_def percentile_line_def printed_Fprintf)

lemma printed_range_loop:
  "ks = drop i P \<Longrightarrow>
   printed (range_loop (\<lambda>psIdx psKey. percentile_Fprintf c name tags now psKey (g (map f P ! psIdx)))
              i ks w)
     = printed w @ map (\<lambda>p. percentile_line c name tags now p (g (f p))) ks"
proof (induction ks arbitrary: i w)
  case Nil
  then show ?case by simp
next
  case (Cons k ks)
  from Cons.prems have i: "i < length P"
    by (metis drop_all list.distinct(1) not_le)
  with Cons.prems have k: "P ! i = k" and ks: "ks = drop (Suc i) P"
    by (metis Cons_nth_drop_Suc list.inject)+
  show ?case
    using Cons.IH [OF ks] i k by (simp add: printed_percentile_Fprintf)
qed

lemma printed_case_Counter:
  "printed (case_Counter c now fs name tags count w) = printed w @
     [wire_line (Prefix c) name ''count'' tags (fmt_d count) now,
      wire_line (Prefix c) name ''count_ps'' tags
        (FormatFloat_f (fdiv (float64_of_int64 count) fs) 2) now]"
  by (simp add: case_Counter_def run_all_def printed_Fprintf wire_line_def Sprintf_def digit_value_def)

lemma printed_case_Gauge:
  "printed (case_Gauge c now name tags v w) = printed w @
     [wire_line (Prefix c) name ''value'' tags (fmt_d v) now]"
  by (simp add: case_Gauge_def printed_Fprintf wire_line_def Sprintf_def digit_value_def)

lemma printed_case_GaugeFloat64:
  "printed (case_GaugeFloat64 c now name tags v w) = printed w @
     [wire_line (Prefix c) name ''value'' tags (FormatFloat_f v 6) now]"
  by (simp add: case_GaugeFloat64_def printed_Fprintf wire_line_def Sprintf_def digit_value_def)

lemma printed_case_Histogram:
  "printed (case_Histogram c now name tags h w) = printed w @
     [wire_line (Prefix c) name ''count'' tags (fmt_d (hCount h)) now,
      wire_line (Prefix c) name ''min'' tags (fmt_d (hMin h)) now,
      wire_line (Prefix c) name ''max'' tags (fmt_d (hMax h)) now,
      wire_line (Prefix c) name ''mean'' tags (FormatFloat_f (hMean h) 2) now,
      wire_line (Prefix c) name ''std-dev'' tags (FormatFloat_f (hStdDev h) 2) now] @
     map (\<lambda>p. percentile_line c name tags now p (hPercentile h p)) (Percentiles c)"
  using printed_range_loop [of "Percentiles c" 0 "Percentiles c" c name tags now "\<lambda>x. x" "hPercentile h"]
  by (simp add: case_Histogram_def run_all_def printed_Fprintf wire_line_def Sprintf_def digit_value_def Let_def)

lemma printed_case_Meter:
  "printed (case_Meter c now name tags m w) = printed w @
     [wire_line (Prefix c) name ''count'' tags (fmt_d (mCount m)) now,
      wire_line (Prefix c) name ''one-minute'' tags (FormatFloat_f (mRate1 m) 2) now,
      wire_line (Prefix c) name ''five-minute'' tags (FormatFloat_f (mRate5 m) 2) now,
      wire_line (Prefix c) name ''fifteen-minute'' tags (FormatFloat_f (mRate15 m) 2) now,
      wire_line (Prefix c) name ''mean'' tags (FormatFloat_f (mRateMean m) 2) now]"
  by (simp add: case_Meter_def run_all_def printed_Fprintf wire_line_def Sprintf_def digit_value_def)

lemma case_Timer_Done:
  assumes "int64_of_float64 (indef ev) du \<noteq> 0"
  shows "\<exists>w'. case_Timer ev c now du fs name tags t w = Done w' \<and>
           printed w' = printed w @
             timer_lines c now du fs (int64_of_float64 (indef ev) du) name tags t"
  using assms
    printed_range_loop [of "Percentiles c" 0 "Percentiles c" c name tags now "\<lambda>x. fdiv x du" "tPercentile t"]
  by (simp add: case_Timer_def timer_lines_def run_all_def printed_Fprintf wire_line_def
        Sprintf_def digit_value_def Let_def)

lemma case_Timer_Panic:
  "int64_of_float64 (indef ev) du = 0 \<Longrightarrow>
   case_Timer ev c now du fs name tags t w = Panic ''runtime error: integer divide by zero''"
  by (simp add: case_Timer_def Let_def)

subsection \<open>Facts about the callback, the enumeration and the cycle\<close>

lemma stamped_I: "stamped ts (body @ '' '' @ fmt_d ts @ [CHR 0x0A])"
  by (simp add: stamped_def)

lemma stamped_iff: "stamped ts l \<longleftrightarrow> (\<exists>body. l = body @ '' '' @ fmt_d ts @ [CHR 0x0A])"
proof
  define t where "t = '' '' @ fmt_d ts @ [CHR 0x0A]"
  assume "stamped ts l"
  then have d: "drop (length l - length t) l = t"
    unfolding stamped_def t_def Let_def by (elim conjE)
  have "take (length l - length t) l @ drop (length l - length t) l = l"
    by (rule append_take_drop_id)
  then have "take (length l - length t) l @ t = l"
    by (simp only: d)
  then have "l = take (length l - length t) l @ t"
    by (rule sym)
  then show "\<exists>body. l = body @ '' '' @ fmt_d ts @ [CHR 0x0A]"
    unfolding t_def by blast
next
  assume "\<exists>body. l = body @ '' '' @ fmt_d ts @ [CHR 0x0A]"
  then obtain body where "l = body @ '' '' @ fmt_d ts @ [CHR 0x0A]" ..
  then show "stamped ts l" by (simp only: stamped_I)
qed

lemma stamped_wire_line: "stamped ts (wire_line p n f t v ts)"
  unfolding stamped_iff wire_line_def
  by (rule exI [of _ "p @ ''.'' @ n @ ''.'' @ f @ t @ '' '' @ v"]) simp

lemma stamped_percentile_line: "stamped ts (percentile_line c n t ts k v)"
  unfolding stamped_iff percentile_line_def
  by (rule exI [of _ "Prefix c @ ''.'' @ n @ ''.'' @ t @ ''-percentile'' @ percentile_key k
                        @ '' '' @ FormatFloat_f v 2"])
     (simp add: Sprintf_def digit_value_def)

lemma range_loop_keeps:
  assumes "\<And>i x s. proj (body i x s) = proj s"
  shows "proj (range_loop body i xs s) = proj s"
  using assms by (induction xs arbitrary: i s) simp_all

lemma Fprintf_keeps [simp]:
  "visited (Fprintf format as w) = visited w"
  "now_calls (Fprintf format as w) = now_calls w"
  "logged (Fprintf format as w) = logged w"
  "closed (Fprintf format as w) = closed w"
  by (simp_all add: Fprintf_def Let_def)

lemma Flush_keeps [simp]:
  "visited (Flush w) = visited w"
  "now_calls (Flush w) = now_calls w"
  "logged (Flush w) = logged w"
  "closed (Flush w) = closed w"
  by (simp_all add: Flush_def split: option.splits)

lemma percentile_Fprintf_keeps [simp]:
  "visited (percentile_Fprintf c name tags now k v w) = visited w"
  "now_calls (percentile_Fprintf c name tags now k v w) = now_calls w"
  "logged (percentile_Fprintf c name tags now k v w) = logged w"
  "closed (percentile_Fprintf c name tags now k v w) = closed w"
  by (simp_all add: percentile_Fprintf_def)

lemma case_keeps_visited:
  "visited (case_Counter c now fs name tags n w) = visited w"
  "visited (case_Gauge c now name tags v w) = visited w"
  "visited (case_GaugeFloat64 c now name tags x w) = visited w"
  "visited (case_Histogram c now name tags h w) = visited w"
  "visited (case_Meter c now name tags m w) = visited w"
  "visited (case_default ty w) = visited w"
  by (simp_all add: case_Counter_def case_Gauge_def case_GaugeFloat64_def case_Histogram_def
        case_Meter_def case_default_def log_Printf_def run_all_def Let_def
        range_loop_keeps [where proj = visited])

lemma case_keeps_now_calls:
  "now_calls (case_Counter c now fs name tags n w) = now_calls w"
  "now_calls (case_Gauge c now name tags v w) = now_calls w"
  "now_calls (case_GaugeFloat64 c now name tags x w) = now_calls w"
  "now_calls (case_Histogram c now name tags h w) = now_calls w"
  "now_calls (case_Meter c now name tags m w) = now_calls w"
  "now_calls (case_default ty w) = now_calls w"
  by (simp_all add: case_Counter_def case_Gauge_def case_GaugeFloat64_def case_Histogram_def
        case_Meter_def case_default_def log_Printf_def run_all_def Let_def
        range_loop_keeps [where proj = now_calls])

lemma case_Timer_keeps:
  "case_Timer ev c now du fs name tags t w = Done w' \<Longrightarrow>
   visited w' = visited w \<and> now_calls w' = now_calls w"
  by (auto simp: case_Timer_def run_all_def Let_def range_loop_keeps [where proj = visited]
        range_loop_keeps [where proj = now_calls] split: if_splits)

lemma printed_case_default: "printed (case_default ty w) = printed w"
  by (simp add: case_default_def log_Printf_def)

lemma callback_Done:
  assumes "callback ev c now du fs name0 i w = Done w'"
  shows "visited w' = visited w @ [name0]" and "now_calls w' = now_calls w"
    and "(\<forall>l \<in> set (printed w). stamped now l) \<Longrightarrow> (\<forall>l \<in> set (printed w'). stamped now l)"
proof -
  obtain name tags where nt: "splitNameAndTags name0 = (name, tags)"
    by (cases "splitNameAndTags name0")
  let ?w = "w\<lparr>visited := visited w @ [name0]\<rparr>"
  show "visited w' = visited w @ [name0]"
    using assms nt
    by (cases i) (auto simp: callback_def case_keeps_visited dest: case_Timer_keeps
          split: run.splits)
  show "now_calls w' = now_calls w"
    using assms nt
    by (cases i) (auto simp: callback_def case_keeps_now_calls dest: case_Timer_keeps
          split: run.splits)
  assume st: "\<forall>l \<in> set (printed w). stamped now l"
  show "\<forall>l \<in> set (printed w'). stamped now l"
  proof (cases i)
    case (Timer t)
    with assms nt obtain w1 where w1: "case_Timer ev c now du fs name tags t ?w = Done w1"
      and w': "w' = Flush w1"
      by (auto simp: callback_def split: run.splits)
    from w1 have nz: "int64_of_float64 (indef ev) du \<noteq> 0"
      by (auto simp: case_Timer_def Let_def split: if_splits)
    from case_Timer_Done [OF nz, of c now fs name tags t ?w] w1
    have "printed w1 = printed w @
            timer_lines c now du fs (int64_of_float64 (indef ev) du) name tags t"
      by simp
    with st w' show ?thesis
      by (auto simp: printed_Flush timer_lines_def stamped_wire_line stamped_percentile_line)
  qed (use assms nt st in \<open>auto simp: callback_def printed_Flush printed_case_Counter
        printed_case_Gauge printed_case_GaugeFloat64 printed_case_Histogram printed_case_Meter
        printed_case_default stamped_wire_line stamped_percentile_line\<close>)
qed

lemma Each_callback_Done:
  "Each (callback ev c now du fs) reg w = Done w' \<Longrightarrow>
   visited w' = visited w @ map fst reg \<and> now_calls w' = now_calls w \<and>
   ((\<forall>l \<in> set (printed w). stamped now l) \<longrightarrow> (\<forall>l \<in> set (printed w'). stamped now l))"
proof (induction reg arbitrary: w)
  case Nil
  then show ?case by simp
next
  case (Cons a reg)
  obtain name0 i where a: "a = (name0, i)" by (cases a)
  from Cons.prems a obtain w1 where w1: "callback ev c now du fs name0 i w = Done w1"
    and rest: "Each (callback ev c now du fs) reg w1 = Done w'"
    by (auto split: run.splits)
  from callback_Done [OF w1] Cons.IH [OF rest] a show ?case by simp
qed

lemma graphite_dial_failed:
  "DialTCP ev (Addr c) = Inl err \<Longrightarrow> graphite ev c = Done (Some err, start\<lparr>now_calls := 1\<rparr>)"
  by (simp add: graphite_def time_Now_Unix_def start_def)

lemma graphite_dialled:
  "DialTCP ev (Addr c) = Inr k \<Longrightarrow>
   graphite ev c =
     (case Each (callback ev c (unix_time ev 0) (float64_of_int64 (DurationUnit c))
                   (fdiv (float64_of_int64 (FlushInterval c)) (float64_of_int64 Second)))
             (Registry c) (start\<lparr>now_calls := 1, room := k\<rparr>) of
        Panic msg \<Rightarrow> Panic msg
      | Done w' \<Rightarrow> Done (None, w'\<lparr>closed := True\<rparr>))"
  by (simp add: graphite_def time_Now_Unix_def start_def)

lemma callback_Timer:
  assumes "int64_of_float64 (indef ev) du \<noteq> 0"
  shows "\<exists>w'. callback ev c now du fs name0 (Timer t) w = Done w' \<and>
           printed w' = printed w @
             timer_lines c now du fs (int64_of_float64 (indef ev) du)
               (fst (splitNameAndTags name0)) (snd (splitNameAndTags name0)) t"
proof -
  obtain name tags where nt: "splitNameAndTags name0 = (name, tags)"
    by (cases "splitNameAndTags name0")
  from case_Timer_Done [OF assms, of c now fs name tags t "w\<lparr>visited := visited w @ [name0]\<rparr>"]
  show ?thesis
    by (auto simp: callback_def nt printed_Flush)
qed


lemma callback_Histogram:
  "\<exists>w'. callback ev c now du fs name0 (Histogram h) w = Done w' \<and>
      printed w' = printed w @
        [wire_line (Prefix c) (fst (splitNameAndTags name0)) ''count''
           (snd (splitNameAndTags name0)) (fmt_d (hCount h)) now,
         wire_line (Prefix c) (fst (splitNameAndTags name0)) ''min''
           (snd (splitNameAndTags name0)) (fmt_d (hMin h)) now,
         wire_line (Prefix c) (fst (splitNameAndTags name0)) ''max''
           (snd (splitNameAndTags name0)) (fmt_d (hMax h)) now,
         wire_line (Prefix c) (fst (splitNameAndTags name0)) ''mean''
           (snd (splitNameAndTags name0)) (FormatFloat_f (hMean h) 2) now,
         wire_line (Prefix c) (fst (splitNameAndTags name0)) ''std-dev''
           (snd (splitNameAndTags name0)) (FormatFloat_f (hStdDev h) 2) now] @
        map (\<lambda>p. percentile_line c (fst (splitNameAndTags name0)) (snd (splitNameAndTags name0))
                   now p (hPercentile h p))
          (Percentiles c)"
proof -
  obtain name tags where nt: "splitNameAndTags name0 = (name, tags)"
    by (cases "splitNameAndTags name0")
  show ?thesis
    by (simp add: callback_def nt printed_Flush printed_case_Histogram)
qed

lemma callback_lines:
  "\<exists>ls. \<forall>w w'. callback ev c now du fs name0 i w = Done w' \<longrightarrow> printed w' = printed w @ ls"
proof -
  obtain name tags where nt: "splitNameAndTags name0 = (name, tags)"
    by (cases "splitNameAndTags name0")
  show ?thesis
  proof (cases i)
    case (Timer t)
    show ?thesis
    proof (cases "int64_of_float64 (indef ev) du = 0")
      case True
      then show ?thesis
        by (simp add: callback_def nt Timer case_Timer_Panic)
    next
      case False
      show ?thesis
        unfolding Timer
      proof (intro exI [of _ "timer_lines c now du fs (int64_of_float64 (indef ev) du)
              (fst (splitNameAndTags name0)) (snd (splitNameAndTags name0)) t"] allI impI)
        fix w w'
        assume d: "callback ev c now du fs name0 (Timer t) w = Done w'"
        from callback_Timer [OF False, of c now fs name0 t w] obtain w''
          where "callback ev c now du fs name0 (Timer t) w = Done w''"
            and "printed w'' = printed w @
                   timer_lines c now du fs (int64_of_float64 (indef ev) du)
                     (fst (splitNameAndTags name0)) (snd (splitNameAndTags name0)) t"
          by blast
        with d show "printed w' = printed w @
                   timer_lines c now du fs (int64_of_float64 (indef ev) du)
                     (fst (splitNameAndTags name0)) (snd (splitNameAndTags name0)) t"
          by simp
      qed
    qed
  qed (auto simp: callback_def nt printed_Flush printed_case_Counter printed_case_Gauge
        printed_case_GaugeFloat64 printed_case_Histogram printed_case_Meter printed_case_default)
qed

lemma Each_lines:
  "\<exists>ls. \<forall>w w'. Each (callback ev c now du fs) reg w = Done w' \<longrightarrow> printed w' = printed w @ ls"
proof (induction reg)
  case Nil
  show ?case by (intro exI [of _ "[]"]) simp
next
  case (Cons a reg)
  obtain name0 i where a: "a = (name0, i)" by (cases a)
  from callback_lines [of ev c now du fs name0 i] obtain l1 where
    l1: "\<And>w w'. callback ev c now du fs name0 i w = Done w' \<Longrightarrow> printed w' = printed w @ l1"
    by blast
  from Cons.IH obtain l2 where
    l2: "\<And>w w'. Each (callback ev c now du fs) reg w = Done w' \<Longrightarrow> printed w' = printed w @ l2"
    by blast
  show ?case
  proof (intro exI [of _ "l1 @ l2"] allI impI)
    fix w w'
    assume "Each (callback ev c now du fs) (a # reg) w = Done w'"
    with a obtain w1 where w1: "callback ev c now du fs name0 i w = Done w1"
      and rest: "Each (callback ev c now du fs) reg w1 = Done w'"
      by (auto split: run.splits)
    from l1 [OF w1] l2 [OF rest] show "printed w' = printed w @ l1 @ l2" by simp
  qed
qed

lemma callback_returns:
  "int64_of_float64 (indef ev) du \<noteq> 0 \<or> (\<forall>t. i \<noteq> Timer t) \<Longrightarrow>
   \<exists>w'. callback ev c now du fs name0 i w = Done w'"
  by (cases i; cases "splitNameAndTags name0")
     (auto simp: callback_def case_Timer_def Let_def)

lemma Each_returns:
  "int64_of_float64 (indef ev) du \<noteq> 0 \<or> (\<forall>n t. (n, Timer t) \<notin> set reg) \<Longrightarrow>
   \<exists>w'. Each (callback ev c now du fs) reg w = Done w'"
proof (induction reg arbitrary: w)
  case Nil
  show ?case by simp
next
  case (Cons a reg)
  obtain name0 i where a: "a = (name0, i)" by (cases a)
  from Cons.prems a have "int64_of_float64 (indef ev) du \<noteq> 0 \<or> (\<forall>t. i \<noteq> Timer t)"
    by auto
  from callback_returns [OF this] obtain w1 where
    w1: "callback ev c now du fs name0 i w = Done w1" by blast
  from Cons.prems have "int64_of_float64 (indef ev) du \<noteq> 0 \<or> (\<forall>n t. (n, Timer t) \<notin> set reg)"
    by auto
  from Cons.IH [OF this, of w1] w1 a show ?case by simp
qed

lemma case_Timer_ignores_dial:
  "case_Timer (ev\<lparr>dial := f\<rparr>) c now du fs name tags t w
     = case_Timer ev c now du fs name tags t w"
  by (simp add: case_Timer_def Let_def cong: if_cong)

lemma callback_ignores_dial:
  "callback (ev\<lparr>dial := f\<rparr>) c now du fs name0 i w = callback ev c now du fs name0 i w"
  by (cases i; cases "splitNameAndTags name0")
     (simp_all add: callback_def case_Timer_ignores_dial)

subsection \<open>Claims about the name/tag split\<close>

text \<open>
  C10. For every input string \<open>s\<close>, \<open>splitNameAndTags s\<close> returns a pair
  \<open>(name, tags)\<close> such that \<open>name\<close> followed by \<open>tags\<close> is \<open>s\<close> again, \<open>name\<close>
  contains no semicolon, and \<open>tags\<close> is empty or begins with a semicolon.
\<close>

theorem splitNameAndTags_lossless:
  "fst (splitNameAndTags s) @ snd (splitNameAndTags s) = s
   \<and> CHR '';'' \<notin> set (fst (splitNameAndTags s))
   \<and> (snd (splitNameAndTags s) = '''' \<or> hd (snd (splitNameAndTags s)) = CHR '';'')"
proof (cases "Index s '';''")
  case None
  then have "CHR '';'' \<notin> set s" by (simp add: Index_single_None)
  then show ?thesis by (simp add: splitNameAndTags_no_semicolon)
next
  case (Some m)
  from Index_single_Some [OF Some]
  have m: "m < length s" "s ! m = CHR '';''" "CHR '';'' \<notin> set (take m s)"
    by simp_all
  have "take m s @ CHR '';'' # drop (Suc m) s = s"
    using m(1) m(2) by (metis id_take_nth_drop)
  with m(3) show ?thesis
    by (simp add: splitNameAndTags_semicolon [OF Some])
qed

subsection \<open>Claims about the percentile key\<close>

text \<open>
  C1, as stated: the key of fraction 0.95 is \<open>950\<close> and the key of fraction 0.999 is
  \<open>9990\<close>. They are not: \<open>0.95 * 100.0\<close> is the \<^verbatim>\<open>float64\<close> 95, whose shortest
  rendering is \<open>95\<close>, without a decimal point, and \<open>0.999 * 100.0\<close> is 99.9, rendered
  \<open>99.9\<close>.
\<close>

theorem percentile_key_095_counterexample:
  "percentile_key (float64_const 95 100) \<noteq> ''950''
   \<and> percentile_key (float64_const 999 1000) \<noteq> ''9990''"
  by code_simp

text \<open>
  C1, amended: for every percentile fraction \<open>p\<close>, the key is the minimal-digit decimal
  rendering of \<open>p * 100\<close> with the first decimal point removed; fraction 0.5 gives
  \<open>50\<close>, fraction 0.95 gives \<open>95\<close> and fraction 0.999 gives \<open>999\<close>.
\<close>

theorem percentile_key_rule:
  "percentile_key p = spec_pctKey p
   \<and> percentile_key (float64_const 5 10) = ''50''
   \<and> percentile_key (float64_const 95 100) = ''95''
   \<and> percentile_key (float64_const 999 1000) = ''999''"
proof -
  have "percentile_key p = spec_pctKey p"
    by (simp add: percentile_key_def spec_pctKey_def FormatFloat_f_def Replace_first)
  moreover have "percentile_key (float64_const 5 10) = ''50''" by code_simp
  moreover have "percentile_key (float64_const 95 100) = ''95''" by code_simp
  moreover have "percentile_key (float64_const 999 1000) = ''999''" by code_simp
  ultimately show ?thesis by simp
qed

subsection \<open>Claims about the lines of one metric\<close>

text \<open>
  C2, as stated: the emitted \<open>min\<close> of a timer is the raw minimum divided by the
  duration unit. With a duration unit of \<open>2^53 + 1\<close> ns, \<^verbatim>\<open>int64(float64(unit))\<close> is
  \<open>2^53\<close>, and a raw minimum of \<open>2^54 + 1\<close> is emitted as 2, where the division by the
  unit gives 1.
\<close>

theorem timer_min_counterexample:
  "map_option printed (result (callback (ex_env (Inr None))
       ((ex_config [])\<lparr>DurationUnit := 9007199254740993, Percentiles := []\<rparr>) 0
       (float64_of_int64 9007199254740993) (float64_const 10 1)
       ''t'' (Timer (ex_timer\<lparr>tMin := 18014398509481985\<rparr>)) start))
   \<noteq> Some (timer_lines ((ex_config [])\<lparr>DurationUnit := 9007199254740993, Percentiles := []\<rparr>) 0
       (float64_of_int64 9007199254740993) (float64_const 10 1) 9007199254740993
       ''t'' [] (ex_timer\<lparr>tMin := 18014398509481985\<rparr>))
   \<and> int64_of_float64 0 (float64_of_int64 9007199254740993) = 9007199254740992
   \<and> int64_quo 18014398509481985 9007199254740992 = 2
   \<and> int64_quo 18014398509481985 9007199254740993 = 1
   \<and> map_option printed (result (callback (ex_env (Inr None))
       ((ex_config [])\<lparr>DurationUnit := 9007199254740993, Percentiles := []\<rparr>) 0
       (float64_of_int64 9007199254740993) (float64_const 10 1)
       ''t'' (Timer (ex_timer\<lparr>tMin := 18014398509481985\<rparr>)) start))
     = Some [''app.t.count 3 0'' @ [CHR 0x0A], ''app.t.count_ps 0.30 0'' @ [CHR 0x0A],
             ''app.t.min 2 0'' @ [CHR 0x0A], ''app.t.max 0 0'' @ [CHR 0x0A],
             ''app.t.mean 0.00 0'' @ [CHR 0x0A], ''app.t.std-dev 0.00 0'' @ [CHR 0x0A],
             ''app.t.one-minute 0.33 0'' @ [CHR 0x0A], ''app.t.five-minute 0.67 0'' @ [CHR 0x0A],
             ''app.t.fifteen-minute 1.00 0'' @ [CHR 0x0A],
             ''app.t.mean-rate 0.14 0'' @ [CHR 0x0A]]"
  by code_simp

text \<open>
  C2, amended: for every timer, when the duration unit is not zero and its conversion to
  \<^verbatim>\<open>float64\<close> and back gives the unit again (as for every unit of at most \<open>2^53\<close> ns in
  magnitude), the emitted \<open>min\<close> and \<open>max\<close> are the raw integers divided by the unit
  with integer division, \<open>mean\<close>, \<open>std-dev\<close> and every percentile value are the raw
  floats divided by the unit as a \<^verbatim>\<open>float64\<close>, and the four rates are emitted as they
  are.
\<close>

theorem timer_unit_conversion:
  assumes "DurationUnit c \<noteq> 0"
    and "int64_of_float64 (indef ev) (float64_of_int64 (DurationUnit c)) = DurationUnit c"
  shows "(\<exists>w'. callback ev c now (float64_of_int64 (DurationUnit c)) fs name0 (Timer t) w = Done w' \<and>
            printed w' = printed w @
              timer_lines c now (float64_of_int64 (DurationUnit c)) fs (DurationUnit c)
                (fst (splitNameAndTags name0)) (snd (splitNameAndTags name0)) t)
         \<and> (\<forall>u d. \<bar>sint u\<bar> \<le> 2 ^ 53 \<longrightarrow> int64_of_float64 d (float64_of_int64 u) = u)"
  using callback_Timer [of ev "float64_of_int64 (DurationUnit c)" c now fs name0 t w] assms
    int64_float64_roundtrip
  by simp

text \<open>
  The amended claim at the millisecond as duration unit: a raw minimum of 1500000 ns is
  emitted as 1.
\<close>

theorem timer_unit_conversion_witness:
  "DurationUnit (ex_config []) \<noteq> 0
   \<and> int64_of_float64 (indef (ex_env (Inr None))) (float64_of_int64 (DurationUnit (ex_config [])))
       = DurationUnit (ex_config [])
   \<and> map_option printed (result (callback (ex_env (Inr None)) (ex_config []) 0
        (float64_of_int64 (DurationUnit (ex_config []))) (float64_const 10 1) ''t''
        (Timer ex_timer) start))
      = Some [''app.t.count 3 0'' @ [CHR 0x0A], ''app.t.count_ps 0.30 0'' @ [CHR 0x0A],
              ''app.t.min 1 0'' @ [CHR 0x0A], ''app.t.max 9 0'' @ [CHR 0x0A],
              ''app.t.mean 4.50 0'' @ [CHR 0x0A], ''app.t.std-dev 0.13 0'' @ [CHR 0x0A],
              ''app.t.-percentile95 8.55 0'' @ [CHR 0x0A],
              ''app.t.-percentile50 4.50 0'' @ [CHR 0x0A],
              ''app.t.one-minute 0.33 0'' @ [CHR 0x0A], ''app.t.five-minute 0.67 0'' @ [CHR 0x0A],
              ''app.t.fifteen-minute 1.00 0'' @ [CHR 0x0A],
              ''app.t.mean-rate 0.14 0'' @ [CHR 0x0A]]"
proof -
  have a: "DurationUnit (ex_config []) \<noteq> 0" by code_simp
  have b: "int64_of_float64 (indef (ex_env (Inr None)))
             (float64_of_int64 (DurationUnit (ex_config []))) = DurationUnit (ex_config [])"
    by code_simp
  have l: "timer_lines (ex_config []) 0 (float64_of_int64 (DurationUnit (ex_config [])))
             (float64_const 10 1) (DurationUnit (ex_config [])) (fst (splitNameAndTags ''t''))
             (snd (splitNameAndTags ''t'')) ex_timer
           = [''app.t.count 3 0'' @ [CHR 0x0A], ''app.t.count_ps 0.30 0'' @ [CHR 0x0A],
              ''app.t.min 1 0'' @ [CHR 0x0A], ''app.t.max 9 0'' @ [CHR 0x0A],
              ''app.t.mean 4.50 0'' @ [CHR 0x0A], ''app.t.std-dev 0.13 0'' @ [CHR 0x0A],
              ''app.t.-percentile95 8.55 0'' @ [CHR 0x0A],
              ''app.t.-percentile50 4.50 0'' @ [CHR 0x0A],
              ''app.t.one-minute 0.33 0'' @ [CHR 0x0A], ''app.t.five-minute 0.67 0'' @ [CHR 0x0A],
              ''app.t.fifteen-minute 1.00 0'' @ [CHR 0x0A],
              ''app.t.mean-rate 0.14 0'' @ [CHR 0x0A]]"
    by code_simp
  have s: "printed start = []" by (simp add: start_def)
  from timer_unit_conversion [OF a b, of 0 "float64_const 10 1" "''t''" ex_timer start]
  show ?thesis using a b by (auto simp: l s)
qed

text \<open>
  C3, evaluated at the metric name of the claim on a histogram: the name splits as the
  claim says, and the first five lines carry the tag string right after the field
  suffix; the two percentile lines carry it before \<open>-percentile\<close>, with the key after
  it.
\<close>

theorem tags_before_percentile_suffix:
  "splitNameAndTags ''disk.used;datacenter=dc1;rack=a1;server=web01''
     = (''disk.used'', '';datacenter=dc1;rack=a1;server=web01'')
   \<and> map_option printed (result (callback (ex_env (Inr None)) (ex_config []) 0
        (float64_of_int64 1000000) (float64_const 10 1)
        ''disk.used;datacenter=dc1;rack=a1;server=web01'' (Histogram ex_hist) start))
     = Some
        [''app.disk.used.count;datacenter=dc1;rack=a1;server=web01 3 0'' @ [CHR 0x0A],
         ''app.disk.used.min;datacenter=dc1;rack=a1;server=web01 1 0'' @ [CHR 0x0A],
         ''app.disk.used.max;datacenter=dc1;rack=a1;server=web01 9 0'' @ [CHR 0x0A],
         ''app.disk.used.mean;datacenter=dc1;rack=a1;server=web01 4.33 0'' @ [CHR 0x0A],
         ''app.disk.used.std-dev;datacenter=dc1;rack=a1;server=web01 0.12 0'' @ [CHR 0x0A],
         ''app.disk.used.;datacenter=dc1;rack=a1;server=web01-percentile95 8.55 0'' @ [CHR 0x0A],
         ''app.disk.used.;datacenter=dc1;rack=a1;server=web01-percentile50 4.50 0'' @ [CHR 0x0A]]"
  by code_simp

text \<open>
  C7. For every counter exactly two lines are emitted: the \<open>count\<close> line with the raw
  integer count and the \<open>count_ps\<close> line with the count divided by the flush interval
  in seconds, formatted with two decimal places; with count 42 and a flush interval of
  10 s the lines are \<^verbatim>\<open><prefix>.<name>.count<tags> 42 <ts>\<close> and
  \<^verbatim>\<open><prefix>.<name>.count_ps<tags> 4.20 <ts>\<close>.
\<close>

theorem counter_two_lines:
  "(\<exists>w'. callback ev c now du
            (fdiv (float64_of_int64 (FlushInterval c)) (float64_of_int64 Second))
            name0 (Counter n) w = Done w' \<and>
          printed w' = printed w @
            [wire_line (Prefix c) (fst (splitNameAndTags name0)) ''count''
               (snd (splitNameAndTags name0)) (fmt_d n) now,
             wire_line (Prefix c) (fst (splitNameAndTags name0)) ''count_ps''
               (snd (splitNameAndTags name0))
               (FormatFloat_f (fdiv (float64_of_int64 n)
                  (fdiv (float64_of_int64 (FlushInterval c)) (float64_of_int64 Second))) 2) now])
   \<and> (\<exists>w'. callback ev (c\<lparr>FlushInterval := 10000000000\<rparr>) now du
            (fdiv (float64_of_int64 10000000000) (float64_of_int64 Second))
            name0 (Counter 42) w = Done w' \<and>
          printed w' = printed w @
            [Prefix c @ ''.'' @ fst (splitNameAndTags name0) @ ''.count''
               @ snd (splitNameAndTags name0) @ '' 42 '' @ fmt_d now @ [CHR 0x0A],
             Prefix c @ ''.'' @ fst (splitNameAndTags name0) @ ''.count_ps''
               @ snd (splitNameAndTags name0) @ '' 4.20 '' @ fmt_d now @ [CHR 0x0A]])"
proof -
  obtain name tags where nt: "splitNameAndTags name0 = (name, tags)"
    by (cases "splitNameAndTags name0")
  have a: "fmt_d 42 = ''42''" by code_simp
  have b: "FormatFloat_f (fdiv (float64_of_int64 42)
         (fdiv (float64_of_int64 10000000000) (float64_of_int64 Second))) 2 = ''4.20''"
    by code_simp
  show ?thesis
    by (simp add: callback_def nt printed_Flush printed_case_Counter wire_line_def a b)
qed

text \<open>
  C8. For a metric of a kind outside the recognised ones no line is emitted, the event is
  written to the log, and the enumeration goes on with the metrics that follow.
\<close>

theorem unknown_kind_skipped:
  "callback ev c now du fs name0 (Other ty) w
     = Done (Flush (w\<lparr>visited := visited w @ [name0],
                      logged := logged w @ [''unable to record metric of type '' @ ty @ [CHR 0x0A]]\<rparr>))
   \<and> printed (Flush (w\<lparr>visited := visited w @ [name0],
                      logged := logged w @ [''unable to record metric of type '' @ ty @ [CHR 0x0A]]\<rparr>))
       = printed w
   \<and> Each (callback ev c now du fs) ((name0, Other ty) # rest) w
       = Each (callback ev c now du fs) rest
           (Flush (w\<lparr>visited := visited w @ [name0],
                      logged := logged w @ [''unable to record metric of type '' @ ty @ [CHR 0x0A]]\<rparr>))"
proof -
  obtain name tags where nt: "splitNameAndTags name0 = (name, tags)"
    by (cases "splitNameAndTags name0")
  have cb: "callback ev c now du fs name0 (Other ty) w
     = Done (Flush (w\<lparr>visited := visited w @ [name0],
                      logged := logged w @ [''unable to record metric of type '' @ ty @ [CHR 0x0A]]\<rparr>))"
    by (simp add: callback_def nt case_default_def log_Printf_def Sprintf_def digit_value_def)
  then show ?thesis by (simp add: printed_Flush)
qed

text \<open>
  C9, evaluated at an untagged histogram with the fractions 0.95 and 0.5 configured in
  that order. The code prints the five fixed lines as the specification lists them and
  one percentile line for each fraction, in the order of the list (0.95 before 0.5);
  but the field of a percentile line is \<open>-percentile95\<close>, where the specification's
  line has \<open>95-percentile\<close>: the operands of the format are (prefix, name, tags, key).
\<close>

theorem histogram_percentile_field_misprinted:
  "map_option printed (result (callback (ex_env (Inr None)) (ex_config []) 0
        (float64_of_int64 1000000) (float64_const 10 1) ''h'' (Histogram ex_hist) start))
     = Some
        [''app.h.count 3 0'' @ [CHR 0x0A],
         ''app.h.min 1 0'' @ [CHR 0x0A],
         ''app.h.max 9 0'' @ [CHR 0x0A],
         ''app.h.mean 4.33 0'' @ [CHR 0x0A],
         ''app.h.std-dev 0.12 0'' @ [CHR 0x0A],
         ''app.h.-percentile95 8.55 0'' @ [CHR 0x0A],
         ''app.h.-percentile50 4.50 0'' @ [CHR 0x0A]]
   \<and> spec_histogram_lines (ex_config []) 0 ''h'' [] ex_hist
     = [''app.h.count 3 0'' @ [CHR 0x0A],
        ''app.h.min 1 0'' @ [CHR 0x0A],
        ''app.h.max 9 0'' @ [CHR 0x0A],
        ''app.h.mean 4.33 0'' @ [CHR 0x0A],
        ''app.h.std-dev 0.12 0'' @ [CHR 0x0A],
        ''app.h.95-percentile 8.55 0'' @ [CHR 0x0A],
        ''app.h.50-percentile 4.50 0'' @ [CHR 0x0A]]
   \<and> map_option printed (result (callback (ex_env (Inr None)) (ex_config []) 0
        (float64_of_int64 1000000) (float64_const 10 1) ''h'' (Histogram ex_hist) start))
     \<noteq> Some (spec_histogram_lines (ex_config []) 0 ''h'' [] ex_hist)"
  by code_simp

subsection \<open>Claims about the flush cycle\<close>

text \<open>
  C4. Every line produced within one flush cycle carries the same timestamp, the
  epoch-seconds value of the one clock reading made at the start of the cycle.
\<close>

theorem one_timestamp_per_cycle:
  assumes "graphite ev c = Done (r, w)"
  shows "now_calls w = 1
         \<and> (\<forall>l \<in> set (printed w). \<exists>body. l = body @ '' '' @ fmt_d (unix_time ev 0) @ [CHR 0x0A])"
proof (cases "DialTCP ev (Addr c)")
  case (Inl err)
  from assms graphite_dial_failed [OF Inl] show ?thesis
    by (auto simp: start_def)
next
  case (Inr k)
  let ?now = "unix_time ev 0"
  from assms graphite_dialled [OF Inr] obtain w1 where
    e: "Each (callback ev c ?now (float64_of_int64 (DurationUnit c))
              (fdiv (float64_of_int64 (FlushInterval c)) (float64_of_int64 Second)))
          (Registry c) (start\<lparr>now_calls := 1, room := k\<rparr>) = Done w1"
    and w: "w = w1\<lparr>closed := True\<rparr>"
    by (auto split: run.splits)
  have "\<forall>l \<in> set (printed (start\<lparr>now_calls := 1, room := k\<rparr>)). stamped ?now l"
    by (simp add: start_def)
  with Each_callback_Done [OF e]
  have "now_calls w1 = 1" and "\<forall>l \<in> set (printed w1). stamped ?now l"
    by simp_all
  with w show ?thesis by (simp add: stamped_iff)
qed

text \<open>
  A cycle over a counter and a gauge, on a connection that fails after 30 bytes: the
  three lines end with the first reading of the clock.
\<close>

theorem one_timestamp_per_cycle_witness:
  "graphite (ex_env (Inr (Some 30)))
     (ex_config [(''requests;dc=a'', Counter 42), (''g'', Gauge (- 7))])
   = Done (None,
       \<lparr>now_calls = 1, visited = [''requests;dc=a'', ''g''],
        printed = [''app.requests.count;dc=a 42 1700000000'' @ [CHR 0x0A],
                   ''app.requests.count_ps;dc=a 4.20 1700000000'' @ [CHR 0x0A],
                   ''app.g.value -7 1700000000'' @ [CHR 0x0A]],
        buffered = ''0000000'' @ [CHR 0x0A] @ ''app.requests.count_ps;dc=a 4.20 1700000000''
                     @ [CHR 0x0A],
        werr = True, sent = ''app.requests.count;dc=a 42 170'', room = Some 0,
        closed = True, logged = []\<rparr>)
   \<and> stamped (unix_time (ex_env (Inr (Some 30))) 0)
         (''app.requests.count;dc=a 42 1700000000'' @ [CHR 0x0A])
   \<and> stamped (unix_time (ex_env (Inr (Some 30))) 0)
         (''app.requests.count_ps;dc=a 4.20 1700000000'' @ [CHR 0x0A])
   \<and> stamped (unix_time (ex_env (Inr (Some 30))) 0)
         (''app.g.value -7 1700000000'' @ [CHR 0x0A])"
proof -
  have g: "graphite (ex_env (Inr (Some 30)))
     (ex_config [(''requests;dc=a'', Counter 42), (''g'', Gauge (- 7))])
   = Done (None,
       \<lparr>now_calls = 1, visited = [''requests;dc=a'', ''g''],
        printed = [''app.requests.count;dc=a 42 1700000000'' @ [CHR 0x0A],
                   ''app.requests.count_ps;dc=a 4.20 1700000000'' @ [CHR 0x0A],
                   ''app.g.value -7 1700000000'' @ [CHR 0x0A]],
        buffered = ''0000000'' @ [CHR 0x0A] @ ''app.requests.count_ps;dc=a 4.20 1700000000''
                     @ [CHR 0x0A],
        werr = True, sent = ''app.requests.count;dc=a 42 170'', room = Some 0,
        closed = True, logged = []\<rparr>)"
    by code_simp
  from one_timestamp_per_cycle [OF g] show ?thesis
    using g by (simp add: stamped_iff)
qed

text \<open>
  C5. In single-shot mode, when establishing the connection fails, the call returns that
  failure as a non-nil error, no metric is enumerated and nothing is written.
\<close>

theorem Once_dial_failure:
  assumes "DialTCP ev (Addr c) = Inl err"
  shows "\<exists>w. Once ev c = Done (Some err, w) \<and> visited w = [] \<and> printed w = []
             \<and> buffered w = [] \<and> sent w = []"
  using graphite_dial_failed [OF assms] by (simp add: Once_def start_def)

text \<open>A refused connection.\<close>

theorem Once_dial_failure_witness:
  "DialTCP (ex_env (Inl (OpError ''connection refused''))) (Addr (ex_config [(''g'', Gauge 1)]))
     = Inl (OpError ''connection refused'')
   \<and> (\<exists>w. Once (ex_env (Inl (OpError ''connection refused''))) (ex_config [(''g'', Gauge 1)])
            = Done (Some (OpError ''connection refused''), w)
          \<and> visited w = [] \<and> printed w = [] \<and> buffered w = [] \<and> sent w = [])"
proof -
  have d: "DialTCP (ex_env (Inl (OpError ''connection refused'')))
             (Addr (ex_config [(''g'', Gauge 1)])) = Inl (OpError ''connection refused'')"
    by (simp add: DialTCP_def ex_env_def ex_config_def)
  from Once_dial_failure [OF d] d show ?thesis by simp
qed

text \<open>
  C6. Once the connection is established, a failing write or flush neither stops the
  processing of the remaining metrics nor becomes the result of the cycle: the cycle
  returns a non-nil error exactly when the connection could not be established;
  whatever number of bytes the connection accepts, a cycle that returns returns
  \<^verbatim>\<open>nil\<close>, has visited every metric of the registry, has printed the same lines and
  has closed the connection; and it does return unless a timer meets a duration unit
  that converts to zero.
\<close>

theorem write_failure_not_fatal:
  "((\<exists>e w. graphite ev c = Done (Some e, w)) \<longleftrightarrow> (\<exists>err. DialTCP ev (Addr c) = Inl err))
   \<and> (Addr c \<noteq> None \<longrightarrow>
        (\<exists>ls. \<forall>k r w. graphite (ev\<lparr>dial := \<lambda>a. Inr k\<rparr>) c = Done (r, w) \<longrightarrow>
           r = None \<and> visited w = map fst (Registry c) \<and> printed w = ls \<and> closed w))
   \<and> (Addr c \<noteq> None \<longrightarrow>
        (int64_of_float64 (indef ev) (float64_of_int64 (DurationUnit c)) \<noteq> 0
           \<or> (\<forall>n t. (n, Timer t) \<notin> set (Registry c))) \<longrightarrow>
        (\<forall>k. \<exists>w. graphite (ev\<lparr>dial := \<lambda>a. Inr k\<rparr>) c = Done (None, w)))"
proof (intro conjI impI)
  show "(\<exists>e w. graphite ev c = Done (Some e, w)) \<longleftrightarrow> (\<exists>err. DialTCP ev (Addr c) = Inl err)"
  proof (cases "DialTCP ev (Addr c)")
    case (Inl err)
    with graphite_dial_failed [OF Inl] show ?thesis by auto
  next
    case (Inr k)
    with graphite_dialled [OF Inr] show ?thesis by (auto split: run.splits)
  qed
next
  assume "Addr c \<noteq> None"
  then obtain a where a: "Addr c = Some a" by auto
  let ?ev = "\<lambda>k. ev\<lparr>dial := \<lambda>a. Inr k\<rparr>"
  let ?f = "callback ev c (unix_time ev 0) (float64_of_int64 (DurationUnit c))
              (fdiv (float64_of_int64 (FlushInterval c)) (float64_of_int64 Second))"
  have cb: "callback (?ev k) c = callback ev c" for k
    by (intro ext) (rule callback_ignores_dial)
  have d: "DialTCP (?ev k) (Addr c) = Inr k" for k
    by (simp add: DialTCP_def a)
  from Each_lines [of ev c "unix_time ev 0" "float64_of_int64 (DurationUnit c)"
      "fdiv (float64_of_int64 (FlushInterval c)) (float64_of_int64 Second)" "Registry c"]
  obtain ls where ls: "\<And>w w'. Each ?f (Registry c) w = Done w' \<Longrightarrow> printed w' = printed w @ ls"
    by blast
  show "\<exists>ls. \<forall>k r w. graphite (?ev k) c = Done (r, w) \<longrightarrow>
           r = None \<and> visited w = map fst (Registry c) \<and> printed w = ls \<and> closed w"
  proof (intro exI [of _ ls] allI impI)
    fix k r w
    assume g: "graphite (?ev k) c = Done (r, w)"
    from g graphite_dialled [OF d, of k] obtain w1 where
      e: "Each ?f (Registry c) (start\<lparr>now_calls := 1, room := k\<rparr>) = Done w1"
      and w: "w = w1\<lparr>closed := True\<rparr>" and r: "r = None"
      by (auto simp: cb split: run.splits)
    from Each_callback_Done [OF e] ls [OF e] w r
    show "r = None \<and> visited w = map fst (Registry c) \<and> printed w = ls \<and> closed w"
      by (simp add: start_def)
  qed
next
  assume "Addr c \<noteq> None"
  then obtain a where a: "Addr c = Some a" by auto
  assume h: "int64_of_float64 (indef ev) (float64_of_int64 (DurationUnit c)) \<noteq> 0
           \<or> (\<forall>n t. (n, Timer t) \<notin> set (Registry c))"
  let ?ev = "\<lambda>k. ev\<lparr>dial := \<lambda>a. Inr k\<rparr>"
  let ?f = "callback ev c (unix_time ev 0) (float64_of_int64 (DurationUnit c))
              (fdiv (float64_of_int64 (FlushInterval c)) (float64_of_int64 Second))"
  have cb: "callback (?ev k) c = callback ev c" for k
    by (intro ext) (rule callback_ignores_dial)
  have d: "DialTCP (?ev k) (Addr c) = Inr k" for k
    by (simp add: DialTCP_def a)
  show "\<forall>k. \<exists>w. graphite (?ev k) c = Done (None, w)"
  proof
    fix k
    from Each_returns [OF h, of c "unix_time ev 0"
        "fdiv (float64_of_int64 (FlushInterval c)) (float64_of_int64 Second)"
        "start\<lparr>now_calls := 1, room := k\<rparr>"]
    obtain w1 where "Each ?f (Registry c) (start\<lparr>now_calls := 1, room := k\<rparr>) = Done w1"
      by blast
    with graphite_dialled [OF d, of k] show "\<exists>w. graphite (?ev k) c = Done (None, w)"
      by (simp add: cb)
  qed
qed

text \<open>
  The same cycle on a connection that fails after 30 bytes and on one that never fails:
  the first delivers 30 bytes and records the write error, and both return \<^verbatim>\<open>nil\<close>
  after visiting both metrics and printing three lines.
\<close>

theorem write_failure_not_fatal_witness:
  "Addr (ex_config [(''requests;dc=a'', Counter 42), (''g'', Gauge (- 7))]) \<noteq> None
   \<and> map_option (\<lambda>(r, w). (r, werr w, sent w, visited w, length (printed w), closed w))
        (result (graphite ((ex_env (Inr None))\<lparr>dial := \<lambda>a. Inr (Some 30)\<rparr>)
           (ex_config [(''requests;dc=a'', Counter 42), (''g'', Gauge (- 7))])))
      = Some (None, True, ''app.requests.count;dc=a 42 170'', [''requests;dc=a'', ''g''], 3, True)
   \<and> map_option (\<lambda>(r, w). (r, werr w, visited w, length (printed w), closed w))
        (result (graphite ((ex_env (Inr None))\<lparr>dial := \<lambda>a. Inr None\<rparr>)
           (ex_config [(''requests;dc=a'', Counter 42), (''g'', Gauge (- 7))])))
      = Some (None, False, [''requests;dc=a'', ''g''], 3, True)"
proof -
  let ?c = "ex_config [(''requests;dc=a'', Counter 42), (''g'', Gauge (- 7))]"
  let ?ev = "ex_env (Inr None)"
  have a: "Addr ?c \<noteq> None" by (simp add: ex_config_def)
  have nt: "int64_of_float64 (indef ?ev) (float64_of_int64 (DurationUnit ?c)) \<noteq> 0
              \<or> (\<forall>n t. (n, Timer t) \<notin> set (Registry ?c))"
    by (simp add: ex_config_def)
  from write_failure_not_fatal [of ?ev ?c] a nt
  obtain ls where ls: "\<And>k r w. graphite (?ev\<lparr>dial := \<lambda>a. Inr k\<rparr>) ?c = Done (r, w) \<Longrightarrow>
           r = None \<and> visited w = map fst (Registry ?c) \<and> printed w = ls \<and> closed w"
    and ret: "\<And>k. \<exists>w. graphite (?ev\<lparr>dial := \<lambda>a. Inr k\<rparr>) ?c = Done (None, w)"
    by blast
  from ret [of "Some 30"] obtain w1 where
    w1: "graphite (?ev\<lparr>dial := \<lambda>a. Inr (Some 30)\<rparr>) ?c = Done (None, w1)" by blast
  from ret [of None] obtain w2 where
    w2: "graphite (?ev\<lparr>dial := \<lambda>a. Inr None\<rparr>) ?c = Done (None, w2)" by blast
  have v: "map fst (Registry ?c) = [''requests;dc=a'', ''g'']" by (simp add: ex_config_def)
  have e1: "map_option (\<lambda>(r, w). (werr w, sent w, length (printed w)))
        (result (graphite (?ev\<lparr>dial := \<lambda>a. Inr (Some 30)\<rparr>) ?c))
      = Some (True, ''app.requests.count;dc=a 42 170'', 3)"
    by code_simp
  have e2: "map_option (\<lambda>(r, w). (werr w, length (printed w)))
        (result (graphite (?ev\<lparr>dial := \<lambda>a. Inr None\<rparr>) ?c))
      = Some (False, 3)"
    by code_simp
  from ls [OF w1] ls [OF w2] e1 e2 a show ?thesis
    by (simp add: w1 w2 v)
qed

end
